theory Spec2Isabelle
  imports Complex_Main
begin

section \<open>JavaScript values used by the service\<close>

subsection \<open>Numbers\<close>

text \<open>
  A JavaScript number is a finite value, one of the two infinities, or NaN. The finite
  values are modelled by exact rationals: the rounding of IEEE doubles and the sign of
  zero are not represented. Every comparison with NaN is false, and the arithmetic
  below produces NaN where the language does (\<open>0 / 0\<close>, \<open>Infinity - Infinity\<close>).
\<close>

datatype jsnum = Fin rat | PInf | NInf | NaN

fun js_le :: "jsnum \<Rightarrow> jsnum \<Rightarrow> bool" where
  "js_le NaN _ = False"
| "js_le _ NaN = False"
| "js_le NInf _ = True"
| "js_le _ PInf = True"
| "js_le PInf _ = False"
| "js_le _ NInf = False"
| "js_le (Fin a) (Fin b) = (a \<le> b)"

definition js_ge :: "jsnum \<Rightarrow> jsnum \<Rightarrow> bool" where
  "js_ge a b = js_le b a"

fun js_gt :: "jsnum \<Rightarrow> jsnum \<Rightarrow> bool" where
  "js_gt NaN _ = False"
| "js_gt _ NaN = False"
| "js_gt NInf _ = False"
| "js_gt _ PInf = False"
| "js_gt PInf _ = True"
| "js_gt _ NInf = True"
| "js_gt (Fin a) (Fin b) = (a > b)"

text \<open>Strict equality \<open>===\<close> of two numbers: NaN is equal to nothing.\<close>

fun js_eq :: "jsnum \<Rightarrow> jsnum \<Rightarrow> bool" where
  "js_eq NaN _ = False"
| "js_eq _ NaN = False"
| "js_eq a b = (a = b)"

fun js_neg :: "jsnum \<Rightarrow> jsnum" where
  "js_neg (Fin a) = Fin (- a)"
| "js_neg PInf = NInf"
| "js_neg NInf = PInf"
| "js_neg NaN = NaN"

fun js_add :: "jsnum \<Rightarrow> jsnum \<Rightarrow> jsnum" where
  "js_add NaN _ = NaN"
| "js_add _ NaN = NaN"
| "js_add PInf NInf = NaN"
| "js_add NInf PInf = NaN"
| "js_add PInf _ = PInf"
| "js_add _ PInf = PInf"
| "js_add NInf _ = NInf"
| "js_add _ NInf = NInf"
| "js_add (Fin a) (Fin b) = Fin (a + b)"

definition js_sub :: "jsnum \<Rightarrow> jsnum \<Rightarrow> jsnum" where
  "js_sub a b = js_add a (js_neg b)"

text \<open>Division; a zero divisor is the positive zero (the only one the service divides by).\<close>

fun js_div :: "jsnum \<Rightarrow> jsnum \<Rightarrow> jsnum" where
  "js_div NaN _ = NaN"
| "js_div _ NaN = NaN"
| "js_div (Fin a) (Fin b) =
     (if b = 0 then (if a = 0 then NaN else if a > 0 then PInf else NInf)
      else Fin (a / b))"
| "js_div (Fin a) _ = Fin 0"
| "js_div PInf (Fin b) = (if b \<ge> 0 then PInf else NInf)"
| "js_div NInf (Fin b) = (if b \<ge> 0 then NInf else PInf)"
| "js_div _ _ = NaN"

subsection \<open>Strings\<close>

text \<open>
  A string is the list of the bytes of its UTF-8 encoding, so that ASCII text is the list
  of its characters. Comparing, searching and testing for emptiness give the same
  answers on the bytes as on the text. \<open>toLowerCase\<close> works on the code points: the
  bytes are decoded, every code point is replaced by its lower-case mapping, and the
  result is encoded again. A byte that does not belong to a well-formed sequence is
  carried through unchanged (as a value above the code points).
\<close>

definition byte :: "char \<Rightarrow> nat" where
  "byte c = of_char c"

definition isCont :: "char \<Rightarrow> bool" where
  "isCont c = (0x80 \<le> byte c \<and> byte c < 0xC0)"

definition rawByte :: "char \<Rightarrow> nat" where
  "rawByte a = (if byte a < 0x80 then byte a else 0x110000 + byte a)"

definition cp2 :: "char \<Rightarrow> char \<Rightarrow> nat" where
  "cp2 a b = (byte a - 0xC0) * 64 + (byte b - 0x80)"

definition cp3 :: "char \<Rightarrow> char \<Rightarrow> char \<Rightarrow> nat" where
  "cp3 a b c = (byte a - 0xE0) * 4096 + (byte b - 0x80) * 64 + (byte c - 0x80)"

definition cp4 :: "char \<Rightarrow> char \<Rightarrow> char \<Rightarrow> char \<Rightarrow> nat" where
  "cp4 a b c d =
     (byte a - 0xF0) * 262144 + (byte b - 0x80) * 4096 + (byte c - 0x80) * 64 + (byte d - 0x80)"

definition wellFormed2 :: "char \<Rightarrow> char \<Rightarrow> bool" where
  "wellFormed2 a b = (0xC2 \<le> byte a \<and> byte a < 0xE0 \<and> isCont b)"

definition wellFormed3 :: "char \<Rightarrow> char \<Rightarrow> char \<Rightarrow> bool" where
  "wellFormed3 a b c =
     (0xE0 \<le> byte a \<and> byte a < 0xF0 \<and> isCont b \<and> isCont c \<and> 0x800 \<le> cp3 a b c)"

definition wellFormed4 :: "char \<Rightarrow> char \<Rightarrow> char \<Rightarrow> char \<Rightarrow> bool" where
  "wellFormed4 a b c d =
     (0xF0 \<le> byte a \<and> byte a < 0xF5 \<and> isCont b \<and> isCont c \<and> isCont d \<and>
      0x10000 \<le> cp4 a b c d \<and> cp4 a b c d < 0x110000)"

fun decode :: "string \<Rightarrow> nat list" where
  "decode (a # b # c # d # r) =
     (if wellFormed4 a b c d then cp4 a b c d # decode r
      else if wellFormed3 a b c then cp3 a b c # decode (d # r)
      else if wellFormed2 a b then cp2 a b # decode (c # d # r)
      else rawByte a # decode (b # c # d # r))"
| "decode [a, b, c] =
     (if wellFormed3 a b c then [cp3 a b c]
      else if wellFormed2 a b then cp2 a b # decode [c]
      else rawByte a # decode [b, c])"
| "decode [a, b] = (if wellFormed2 a b then [cp2 a b] else rawByte a # decode [b])"
| "decode [a] = [rawByte a]"
| "decode [] = []"

definition encodePoint :: "nat \<Rightarrow> string" where
  "encodePoint n =
     (if n < 0x80 then [char_of n]
      else if n < 0x800 then [char_of (0xC0 + n div 64), char_of (0x80 + n mod 64)]
      else if n < 0x10000 then
        [char_of (0xE0 + n div 4096), char_of (0x80 + n div 64 mod 64), char_of (0x80 + n mod 64)]
      else if n < 0x110000 then
        [char_of (0xF0 + n div 262144), char_of (0x80 + n div 4096 mod 64),
         char_of (0x80 + n div 64 mod 64), char_of (0x80 + n mod 64)]
      else [char_of (n - 0x110000)])"

definition encode :: "nat list \<Rightarrow> string" where
  "encode ns = concat (map encodePoint ns)"

text \<open>
  The lower-case mappings of the code points above ASCII (Unicode 14.0): an entry
  \<open>(lo, hi, step, delta)\<close> maps every \<open>step\<close>-th code point from \<open>lo\<close> to \<open>hi\<close>
  to the code point \<open>delta\<close> away. The two tables after it list the cased letters and the
  case-ignorable characters, which decide the form of the Greek small sigma; a
  character with both properties is listed as case-ignorable only, which is how the
  context is scanned.
\<close>

definition lowerTable :: "(nat \<times> nat \<times> nat \<times> int) list" where
  "lowerTable =
    [(0xC0, 0xD6, 1, 32), (0xD8, 0xDE, 1, 32), (0x100, 0x12E, 2, 1), (0x132, 0x136, 2, 1),
     (0x139, 0x147, 2, 1), (0x14A, 0x176, 2, 1), (0x178, 0x178, 1, - 121),
     (0x179, 0x17D, 2, 1), (0x181, 0x181, 1, 210), (0x182, 0x184, 2, 1),
     (0x186, 0x186, 1, 206), (0x187, 0x187, 1, 1), (0x189, 0x18A, 1, 205),
     (0x18B, 0x18B, 1, 1), (0x18E, 0x18E, 1, 79), (0x18F, 0x18F, 1, 202),
     (0x190, 0x190, 1, 203), (0x191, 0x191, 1, 1), (0x193, 0x193, 1, 205),
     (0x194, 0x194, 1, 207), (0x196, 0x196, 1, 211), (0x197, 0x197, 1, 209),
     (0x198, 0x198, 1, 1), (0x19C, 0x19C, 1, 211), (0x19D, 0x19D, 1, 213),
     (0x19F, 0x19F, 1, 214), (0x1A0, 0x1A4, 2, 1), (0x1A6, 0x1A6, 1, 218),
     (0x1A7, 0x1A7, 1, 1), (0x1A9, 0x1A9, 1, 218), (0x1AC, 0x1AC, 1, 1),
     (0x1AE, 0x1AE, 1, 218), (0x1AF, 0x1AF, 1, 1), (0x1B1, 0x1B2, 1, 217),
     (0x1B3, 0x1B5, 2, 1), (0x1B7, 0x1B7, 1, 219), (0x1B8, 0x1B8, 1, 1),
     (0x1BC, 0x1BC, 1, 1), (0x1C4, 0x1C4, 1, 2), (0x1C5, 0x1C5, 1, 1),
     (0x1C7, 0x1C7, 1, 2), (0x1C8, 0x1C8, 1, 1), (0x1CA, 0x1CA, 1, 2),
     (0x1CB, 0x1DB, 2, 1), (0x1DE, 0x1EE, 2, 1), (0x1F1, 0x1F1, 1, 2),
     (0x1F2, 0x1F4, 2, 1), (0x1F6, 0x1F6, 1, - 97), (0x1F7, 0x1F7, 1, - 56),
     (0x1F8, 0x21E, 2, 1), (0x220, 0x220, 1, - 130), (0x222, 0x232, 2, 1),
     (0x23A, 0x23A, 1, 10795), (0x23B, 0x23B, 1, 1), (0x23D, 0x23D, 1, - 163),
     (0x23E, 0x23E, 1, 10792), (0x241, 0x241, 1, 1), (0x243, 0x243, 1, - 195),
     (0x244, 0x244, 1, 69), (0x245, 0x245, 1, 71), (0x246, 0x24E, 2, 1),
     (0x370, 0x372, 2, 1), (0x376, 0x376, 1, 1), (0x37F, 0x37F, 1, 116),
     (0x386, 0x386, 1, 38), (0x388, 0x38A, 1, 37), (0x38C, 0x38C, 1, 64),
     (0x38E, 0x38F, 1, 63), (0x391, 0x3A1, 1, 32), (0x3A3, 0x3AB, 1, 32),
     (0x3CF, 0x3CF, 1, 8), (0x3D8, 0x3EE, 2, 1), (0x3F4, 0x3F4, 1, - 60),
     (0x3F7, 0x3F7, 1, 1), (0x3F9, 0x3F9, 1, - 7), (0x3FA, 0x3FA, 1, 1),
     (0x3FD, 0x3FF, 1, - 130), (0x400, 0x40F, 1, 80), (0x410, 0x42F, 1, 32),
     (0x460, 0x480, 2, 1), (0x48A, 0x4BE, 2, 1), (0x4C0, 0x4C0, 1, 15),
     (0x4C1, 0x4CD, 2, 1), (0x4D0, 0x52E, 2, 1), (0x531, 0x556, 1, 48),
     (0x10A0, 0x10C5, 1, 7264), (0x10C7, 0x10C7, 1, 7264), (0x10CD, 0x10CD, 1, 7264),
     (0x13A0, 0x13EF, 1, 38864), (0x13F0, 0x13F5, 1, 8), (0x1C90, 0x1CBA, 1, - 3008),
     (0x1CBD, 0x1CBF, 1, - 3008), (0x1E00, 0x1E94, 2, 1), (0x1E9E, 0x1E9E, 1, - 7615),
     (0x1EA0, 0x1EFE, 2, 1), (0x1F08, 0x1F0F, 1, - 8), (0x1F18, 0x1F1D, 1, - 8),
     (0x1F28, 0x1F2F, 1, - 8), (0x1F38, 0x1F3F, 1, - 8), (0x1F48, 0x1F4D, 1, - 8),
     (0x1F59, 0x1F5F, 2, - 8), (0x1F68, 0x1F6F, 1, - 8), (0x1F88, 0x1F8F, 1, - 8),
     (0x1F98, 0x1F9F, 1, - 8), (0x1FA8, 0x1FAF, 1, - 8), (0x1FB8, 0x1FB9, 1, - 8),
     (0x1FBA, 0x1FBB, 1, - 74), (0x1FBC, 0x1FBC, 1, - 9), (0x1FC8, 0x1FCB, 1, - 86),
     (0x1FCC, 0x1FCC, 1, - 9), (0x1FD8, 0x1FD9, 1, - 8), (0x1FDA, 0x1FDB, 1, - 100),
     (0x1FE8, 0x1FE9, 1, - 8), (0x1FEA, 0x1FEB, 1, - 112), (0x1FEC, 0x1FEC, 1, - 7),
     (0x1FF8, 0x1FF9, 1, - 128), (0x1FFA, 0x1FFB, 1, - 126), (0x1FFC, 0x1FFC, 1, - 9),
     (0x2126, 0x2126, 1, - 7517), (0x212A, 0x212A, 1, - 8383), (0x212B, 0x212B, 1, - 8262),
     (0x2132, 0x2132, 1, 28), (0x2160, 0x216F, 1, 16), (0x2183, 0x2183, 1, 1),
     (0x24B6, 0x24CF, 1, 26), (0x2C00, 0x2C2F, 1, 48), (0x2C60, 0x2C60, 1, 1),
     (0x2C62, 0x2C62, 1, - 10743), (0x2C63, 0x2C63, 1, - 3814),
     (0x2C64, 0x2C64, 1, - 10727), (0x2C67, 0x2C6B, 2, 1), (0x2C6D, 0x2C6D, 1, - 10780),
     (0x2C6E, 0x2C6E, 1, - 10749), (0x2C6F, 0x2C6F, 1, - 10783),
     (0x2C70, 0x2C70, 1, - 10782), (0x2C72, 0x2C72, 1, 1), (0x2C75, 0x2C75, 1, 1),
     (0x2C7E, 0x2C7F, 1, - 10815), (0x2C80, 0x2CE2, 2, 1), (0x2CEB, 0x2CED, 2, 1),
     (0x2CF2, 0x2CF2, 1, 1), (0xA640, 0xA66C, 2, 1), (0xA680, 0xA69A, 2, 1),
     (0xA722, 0xA72E, 2, 1), (0xA732, 0xA76E, 2, 1), (0xA779, 0xA77B, 2, 1),
     (0xA77D, 0xA77D, 1, - 35332), (0xA77E, 0xA786, 2, 1), (0xA78B, 0xA78B, 1, 1),
     (0xA78D, 0xA78D, 1, - 42280), (0xA790, 0xA792, 2, 1), (0xA796, 0xA7A8, 2, 1),
     (0xA7AA, 0xA7AA, 1, - 42308), (0xA7AB, 0xA7AB, 1, - 42319),
     (0xA7AC, 0xA7AC, 1, - 42315), (0xA7AD, 0xA7AD, 1, - 42305),
     (0xA7AE, 0xA7AE, 1, - 42308), (0xA7B0, 0xA7B0, 1, - 42258),
     (0xA7B1, 0xA7B1, 1, - 42282), (0xA7B2, 0xA7B2, 1, - 42261), (0xA7B3, 0xA7B3, 1, 928),
     (0xA7B4, 0xA7C2, 2, 1), (0xA7C4, 0xA7C4, 1, - 48), (0xA7C5, 0xA7C5, 1, - 42307),
     (0xA7C6, 0xA7C6, 1, - 35384), (0xA7C7, 0xA7C9, 2, 1), (0xA7D0, 0xA7D0, 1, 1),
     (0xA7D6, 0xA7D8, 2, 1), (0xA7F5, 0xA7F5, 1, 1), (0xFF21, 0xFF3A, 1, 32),
     (0x10400, 0x10427, 1, 40), (0x104B0, 0x104D3, 1, 40), (0x10570, 0x1057A, 1, 39),
     (0x1057C, 0x1058A, 1, 39), (0x1058C, 0x10592, 1, 39), (0x10594, 0x10595, 1, 39),
     (0x10C80, 0x10CB2, 1, 64), (0x118A0, 0x118BF, 1, 32), (0x16E40, 0x16E5F, 1, 32),
     (0x1E900, 0x1E921, 1, 34)]"

definition casedTable :: "(nat \<times> nat) list" where
  "casedTable =
    [(0x41, 0x5A), (0x61, 0x7A), (0xAA, 0xAA), (0xB5, 0xB5), (0xBA, 0xBA), (0xC0, 0xD6),
     (0xD8, 0xF6), (0xF8, 0x1BA), (0x1BC, 0x1BF), (0x1C4, 0x293), (0x295, 0x2AF),
     (0x370, 0x373), (0x376, 0x377), (0x37B, 0x37D), (0x37F, 0x37F), (0x386, 0x386),
     (0x388, 0x38A), (0x38C, 0x38C), (0x38E, 0x3A1), (0x3A3, 0x3F5), (0x3F7, 0x481),
     (0x48A, 0x52F), (0x531, 0x556), (0x560, 0x588), (0x10A0, 0x10C5), (0x10C7, 0x10C7),
     (0x10CD, 0x10CD), (0x10D0, 0x10FA), (0x10FD, 0x10FF), (0x13A0, 0x13F5),
     (0x13F8, 0x13FD), (0x1C80, 0x1C88), (0x1C90, 0x1CBA), (0x1CBD, 0x1CBF),
     (0x1D00, 0x1D2B), (0x1D6B, 0x1D77), (0x1D79, 0x1D9A), (0x1E00, 0x1F15),
     (0x1F18, 0x1F1D), (0x1F20, 0x1F45), (0x1F48, 0x1F4D), (0x1F50, 0x1F57),
     (0x1F59, 0x1F59), (0x1F5B, 0x1F5B), (0x1F5D, 0x1F5D), (0x1F5F, 0x1F7D),
     (0x1F80, 0x1FB4), (0x1FB6, 0x1FBC), (0x1FBE, 0x1FBE), (0x1FC2, 0x1FC4),
     (0x1FC6, 0x1FCC), (0x1FD0, 0x1FD3), (0x1FD6, 0x1FDB), (0x1FE0, 0x1FEC),
     (0x1FF2, 0x1FF4), (0x1FF6, 0x1FFC), (0x2102, 0x2102), (0x2107, 0x2107),
     (0x210A, 0x2113), (0x2115, 0x2115), (0x2119, 0x211D), (0x2124, 0x2124),
     (0x2126, 0x2126), (0x2128, 0x2128), (0x212A, 0x212D), (0x212F, 0x2134),
     (0x2139, 0x2139), (0x213C, 0x213F), (0x2145, 0x2149), (0x214E, 0x214E),
     (0x2160, 0x217F), (0x2183, 0x2184), (0x24B6, 0x24E9), (0x2C00, 0x2C7B),
     (0x2C7E, 0x2CE4), (0x2CEB, 0x2CEE), (0x2CF2, 0x2CF3), (0x2D00, 0x2D25),
     (0x2D27, 0x2D27), (0x2D2D, 0x2D2D), (0xA640, 0xA66D), (0xA680, 0xA69B),
     (0xA722, 0xA76F), (0xA771, 0xA787), (0xA78B, 0xA78E), (0xA790, 0xA7CA),
     (0xA7D0, 0xA7D1), (0xA7D3, 0xA7D3), (0xA7D5, 0xA7D9), (0xA7F5, 0xA7F6),
     (0xA7FA, 0xA7FA), (0xAB30, 0xAB5A), (0xAB60, 0xAB68), (0xAB70, 0xABBF),
     (0xFB00, 0xFB06), (0xFB13, 0xFB17), (0xFF21, 0xFF3A), (0xFF41, 0xFF5A),
     (0x10400, 0x1044F), (0x104B0, 0x104D3), (0x104D8, 0x104FB), (0x10570, 0x1057A),
     (0x1057C, 0x1058A), (0x1058C, 0x10592), (0x10594, 0x10595), (0x10597, 0x105A1),
     (0x105A3, 0x105B1), (0x105B3, 0x105B9), (0x105BB, 0x105BC), (0x10C80, 0x10CB2),
     (0x10CC0, 0x10CF2), (0x118A0, 0x118DF), (0x16E40, 0x16E7F), (0x1D400, 0x1D454),
     (0x1D456, 0x1D49C), (0x1D49E, 0x1D49F), (0x1D4A2, 0x1D4A2), (0x1D4A5, 0x1D4A6),
     (0x1D4A9, 0x1D4AC), (0x1D4AE, 0x1D4B9), (0x1D4BB, 0x1D4BB), (0x1D4BD, 0x1D4C3),
     (0x1D4C5, 0x1D505), (0x1D507, 0x1D50A), (0x1D50D, 0x1D514), (0x1D516, 0x1D51C),
     (0x1D51E, 0x1D539), (0x1D53B, 0x1D53E), (0x1D540, 0x1D544), (0x1D546, 0x1D546),
     (0x1D54A, 0x1D550), (0x1D552, 0x1D6A5), (0x1D6A8, 0x1D6C0), (0x1D6C2, 0x1D6DA),
     (0x1D6DC, 0x1D6FA), (0x1D6FC, 0x1D714), (0x1D716, 0x1D734), (0x1D736, 0x1D74E),
     (0x1D750, 0x1D76E), (0x1D770, 0x1D788), (0x1D78A, 0x1D7A8), (0x1D7AA, 0x1D7C2),
     (0x1D7C4, 0x1D7CB), (0x1DF00, 0x1DF09), (0x1DF0B, 0x1DF1E), (0x1E900, 0x1E943),
     (0x1F130, 0x1F149), (0x1F150, 0x1F169), (0x1F170, 0x1F189)]"

definition ignorableTable :: "(nat \<times> nat) list" where
  "ignorableTable =
    [(0x27, 0x27), (0x2E, 0x2E), (0x3A, 0x3A), (0x5E, 0x5E), (0x60, 0x60), (0xA8, 0xA8),
     (0xAD, 0xAD), (0xAF, 0xAF), (0xB4, 0xB4), (0xB7, 0xB8), (0x2B0, 0x36F),
     (0x374, 0x375), (0x37A, 0x37A), (0x384, 0x385), (0x387, 0x387), (0x483, 0x489),
     (0x559, 0x559), (0x55F, 0x55F), (0x591, 0x5BD), (0x5BF, 0x5BF), (0x5C1, 0x5C2),
     (0x5C4, 0x5C5), (0x5C7, 0x5C7), (0x5F4, 0x5F4), (0x600, 0x605), (0x610, 0x61A),
     (0x61C, 0x61C), (0x640, 0x640), (0x64B, 0x65F), (0x670, 0x670), (0x6D6, 0x6DD),
     (0x6DF, 0x6E8), (0x6EA, 0x6ED), (0x70F, 0x70F), (0x711, 0x711), (0x730, 0x74A),
     (0x7A6, 0x7B0), (0x7EB, 0x7F5), (0x7FA, 0x7FA), (0x7FD, 0x7FD), (0x816, 0x82D),
     (0x859, 0x85B), (0x888, 0x888), (0x890, 0x891), (0x898, 0x89F), (0x8C9, 0x902),
     (0x93A, 0x93A), (0x93C, 0x93C), (0x941, 0x948), (0x94D, 0x94D), (0x951, 0x957),
     (0x962, 0x963), (0x971, 0x971), (0x981, 0x981), (0x9BC, 0x9BC), (0x9C1, 0x9C4),
     (0x9CD, 0x9CD), (0x9E2, 0x9E3), (0x9FE, 0x9FE), (0xA01, 0xA02), (0xA3C, 0xA3C),
     (0xA41, 0xA42), (0xA47, 0xA48), (0xA4B, 0xA4D), (0xA51, 0xA51), (0xA70, 0xA71),
     (0xA75, 0xA75), (0xA81, 0xA82), (0xABC, 0xABC), (0xAC1, 0xAC5), (0xAC7, 0xAC8),
     (0xACD, 0xACD), (0xAE2, 0xAE3), (0xAFA, 0xAFF), (0xB01, 0xB01), (0xB3C, 0xB3C),
     (0xB3F, 0xB3F), (0xB41, 0xB44), (0xB4D, 0xB4D), (0xB55, 0xB56), (0xB62, 0xB63),
     (0xB82, 0xB82), (0xBC0, 0xBC0), (0xBCD, 0xBCD), (0xC00, 0xC00), (0xC04, 0xC04),
     (0xC3C, 0xC3C), (0xC3E, 0xC40), (0xC46, 0xC48), (0xC4A, 0xC4D), (0xC55, 0xC56),
     (0xC62, 0xC63), (0xC81, 0xC81), (0xCBC, 0xCBC), (0xCBF, 0xCBF), (0xCC6, 0xCC6),
     (0xCCC, 0xCCD), (0xCE2, 0xCE3), (0xD00, 0xD01), (0xD3B, 0xD3C), (0xD41, 0xD44),
     (0xD4D, 0xD4D), (0xD62, 0xD63), (0xD81, 0xD81), (0xDCA, 0xDCA), (0xDD2, 0xDD4),
     (0xDD6, 0xDD6), (0xE31, 0xE31), (0xE34, 0xE3A), (0xE46, 0xE4E), (0xEB1, 0xEB1),
     (0xEB4, 0xEBC), (0xEC6, 0xEC6), (0xEC8, 0xECD), (0xF18, 0xF19), (0xF35, 0xF35),
     (0xF37, 0xF37), (0xF39, 0xF39), (0xF71, 0xF7E), (0xF80, 0xF84), (0xF86, 0xF87),
     (0xF8D, 0xF97), (0xF99, 0xFBC), (0xFC6, 0xFC6), (0x102D, 0x1030), (0x1032, 0x1037),
     (0x1039, 0x103A), (0x103D, 0x103E), (0x1058, 0x1059), (0x105E, 0x1060),
     (0x1071, 0x1074), (0x1082, 0x1082), (0x1085, 0x1086), (0x108D, 0x108D),
     (0x109D, 0x109D), (0x10FC, 0x10FC), (0x135D, 0x135F), (0x1712, 0x1714),
     (0x1732, 0x1733), (0x1752, 0x1753), (0x1772, 0x1773), (0x17B4, 0x17B5),
     (0x17B7, 0x17BD), (0x17C6, 0x17C6), (0x17C9, 0x17D3), (0x17D7, 0x17D7),
     (0x17DD, 0x17DD), (0x180B, 0x180F), (0x1843, 0x1843), (0x1885, 0x1886),
     (0x18A9, 0x18A9), (0x1920, 0x1922), (0x1927, 0x1928), (0x1932, 0x1932),
     (0x1939, 0x193B), (0x1A17, 0x1A18), (0x1A1B, 0x1A1B), (0x1A56, 0x1A56),
     (0x1A58, 0x1A5E), (0x1A60, 0x1A60), (0x1A62, 0x1A62), (0x1A65, 0x1A6C),
     (0x1A73, 0x1A7C), (0x1A7F, 0x1A7F), (0x1AA7, 0x1AA7), (0x1AB0, 0x1ACE),
     (0x1B00, 0x1B03), (0x1B34, 0x1B34), (0x1B36, 0x1B3A), (0x1B3C, 0x1B3C),
     (0x1B42, 0x1B42), (0x1B6B, 0x1B73), (0x1B80, 0x1B81), (0x1BA2, 0x1BA5),
     (0x1BA8, 0x1BA9), (0x1BAB, 0x1BAD), (0x1BE6, 0x1BE6), (0x1BE8, 0x1BE9),
     (0x1BED, 0x1BED), (0x1BEF, 0x1BF1), (0x1C2C, 0x1C33), (0x1C36, 0x1C37),
     (0x1C78, 0x1C7D), (0x1CD0, 0x1CD2), (0x1CD4, 0x1CE0), (0x1CE2, 0x1CE8),
     (0x1CED, 0x1CED), (0x1CF4, 0x1CF4), (0x1CF8, 0x1CF9), (0x1D2C, 0x1D6A),
     (0x1D78, 0x1D78), (0x1D9B, 0x1DFF), (0x1FBD, 0x1FBD), (0x1FBF, 0x1FC1),
     (0x1FCD, 0x1FCF), (0x1FDD, 0x1FDF), (0x1FED, 0x1FEF), (0x1FFD, 0x1FFE),
     (0x200B, 0x200F), (0x2018, 0x2019), (0x2024, 0x2024), (0x2027, 0x2027),
     (0x202A, 0x202E), (0x2060, 0x2064), (0x2066, 0x206F), (0x2071, 0x2071),
     (0x207F, 0x207F), (0x2090, 0x209C), (0x20D0, 0x20F0), (0x2C7C, 0x2C7D),
     (0x2CEF, 0x2CF1), (0x2D6F, 0x2D6F), (0x2D7F, 0x2D7F), (0x2DE0, 0x2DFF),
     (0x2E2F, 0x2E2F), (0x3005, 0x3005), (0x302A, 0x302D), (0x3031, 0x3035),
     (0x303B, 0x303B), (0x3099, 0x309E), (0x30FC, 0x30FE), (0xA015, 0xA015),
     (0xA4F8, 0xA4FD), (0xA60C, 0xA60C), (0xA66F, 0xA672), (0xA674, 0xA67D),
     (0xA67F, 0xA67F), (0xA69C, 0xA69F), (0xA6F0, 0xA6F1), (0xA700, 0xA721),
     (0xA770, 0xA770), (0xA788, 0xA78A), (0xA7F2, 0xA7F4), (0xA7F8, 0xA7F9),
     (0xA802, 0xA802), (0xA806, 0xA806), (0xA80B, 0xA80B), (0xA825, 0xA826),
     (0xA82C, 0xA82C), (0xA8C4, 0xA8C5), (0xA8E0, 0xA8F1), (0xA8FF, 0xA8FF),
     (0xA926, 0xA92D), (0xA947, 0xA951), (0xA980, 0xA982), (0xA9B3, 0xA9B3),
     (0xA9B6, 0xA9B9), (0xA9BC, 0xA9BD), (0xA9CF, 0xA9CF), (0xA9E5, 0xA9E6),
     (0xAA29, 0xAA2E), (0xAA31, 0xAA32), (0xAA35, 0xAA36), (0xAA43, 0xAA43),
     (0xAA4C, 0xAA4C), (0xAA70, 0xAA70), (0xAA7C, 0xAA7C), (0xAAB0, 0xAAB0),
     (0xAAB2, 0xAAB4), (0xAAB7, 0xAAB8), (0xAABE, 0xAABF), (0xAAC1, 0xAAC1),
     (0xAADD, 0xAADD), (0xAAEC, 0xAAED), (0xAAF3, 0xAAF4), (0xAAF6, 0xAAF6),
     (0xAB5B, 0xAB5F), (0xAB69, 0xAB6B), (0xABE5, 0xABE5), (0xABE8, 0xABE8),
     (0xABED, 0xABED), (0xFB1E, 0xFB1E), (0xFBB2, 0xFBC2), (0xFE00, 0xFE0F),
     (0xFE13, 0xFE13), (0xFE20, 0xFE2F), (0xFE52, 0xFE52), (0xFE55, 0xFE55),
     (0xFEFF, 0xFEFF), (0xFF07, 0xFF07), (0xFF0E, 0xFF0E), (0xFF1A, 0xFF1A),
     (0xFF3E, 0xFF3E), (0xFF40, 0xFF40), (0xFF70, 0xFF70), (0xFF9E, 0xFF9F),
     (0xFFE3, 0xFFE3), (0xFFF9, 0xFFFB), (0x101FD, 0x101FD), (0x102E0, 0x102E0),
     (0x10376, 0x1037A), (0x10780, 0x10785), (0x10787, 0x107B0), (0x107B2, 0x107BA),
     (0x10A01, 0x10A03), (0x10A05, 0x10A06), (0x10A0C, 0x10A0F), (0x10A38, 0x10A3A),
     (0x10A3F, 0x10A3F), (0x10AE5, 0x10AE6), (0x10D24, 0x10D27), (0x10EAB, 0x10EAC),
     (0x10F46, 0x10F50), (0x10F82, 0x10F85), (0x11001, 0x11001), (0x11038, 0x11046),
     (0x11070, 0x11070), (0x11073, 0x11074), (0x1107F, 0x11081), (0x110B3, 0x110B6),
     (0x110B9, 0x110BA), (0x110BD, 0x110BD), (0x110C2, 0x110C2), (0x110CD, 0x110CD),
     (0x11100, 0x11102), (0x11127, 0x1112B), (0x1112D, 0x11134), (0x11173, 0x11173),
     (0x11180, 0x11181), (0x111B6, 0x111BE), (0x111C9, 0x111CC), (0x111CF, 0x111CF),
     (0x1122F, 0x11231), (0x11234, 0x11234), (0x11236, 0x11237), (0x1123E, 0x1123E),
     (0x112DF, 0x112DF), (0x112E3, 0x112EA), (0x11300, 0x11301), (0x1133B, 0x1133C),
     (0x11340, 0x11340), (0x11366, 0x1136C), (0x11370, 0x11374), (0x11438, 0x1143F),
     (0x11442, 0x11444), (0x11446, 0x11446), (0x1145E, 0x1145E), (0x114B3, 0x114B8),
     (0x114BA, 0x114BA), (0x114BF, 0x114C0), (0x114C2, 0x114C3), (0x115B2, 0x115B5),
     (0x115BC, 0x115BD), (0x115BF, 0x115C0), (0x115DC, 0x115DD), (0x11633, 0x1163A),
     (0x1163D, 0x1163D), (0x1163F, 0x11640), (0x116AB, 0x116AB), (0x116AD, 0x116AD),
     (0x116B0, 0x116B5), (0x116B7, 0x116B7), (0x1171D, 0x1171F), (0x11722, 0x11725),
     (0x11727, 0x1172B), (0x1182F, 0x11837), (0x11839, 0x1183A), (0x1193B, 0x1193C),
     (0x1193E, 0x1193E), (0x11943, 0x11943), (0x119D4, 0x119D7), (0x119DA, 0x119DB),
     (0x119E0, 0x119E0), (0x11A01, 0x11A0A), (0x11A33, 0x11A38), (0x11A3B, 0x11A3E),
     (0x11A47, 0x11A47), (0x11A51, 0x11A56), (0x11A59, 0x11A5B), (0x11A8A, 0x11A96),
     (0x11A98, 0x11A99), (0x11C30, 0x11C36), (0x11C38, 0x11C3D), (0x11C3F, 0x11C3F),
     (0x11C92, 0x11CA7), (0x11CAA, 0x11CB0), (0x11CB2, 0x11CB3), (0x11CB5, 0x11CB6),
     (0x11D31, 0x11D36), (0x11D3A, 0x11D3A), (0x11D3C, 0x11D3D), (0x11D3F, 0x11D45),
     (0x11D47, 0x11D47), (0x11D90, 0x11D91), (0x11D95, 0x11D95), (0x11D97, 0x11D97),
     (0x11EF3, 0x11EF4), (0x13430, 0x13438), (0x16AF0, 0x16AF4), (0x16B30, 0x16B36),
     (0x16B40, 0x16B43), (0x16F4F, 0x16F4F), (0x16F8F, 0x16F9F), (0x16FE0, 0x16FE1),
     (0x16FE3, 0x16FE4), (0x1AFF0, 0x1AFF3), (0x1AFF5, 0x1AFFB), (0x1AFFD, 0x1AFFE),
     (0x1BC9D, 0x1BC9E), (0x1BCA0, 0x1BCA3), (0x1CF00, 0x1CF2D), (0x1CF30, 0x1CF46),
     (0x1D167, 0x1D169), (0x1D173, 0x1D182), (0x1D185, 0x1D18B), (0x1D1AA, 0x1D1AD),
     (0x1D242, 0x1D244), (0x1DA00, 0x1DA36), (0x1DA3B, 0x1DA6C), (0x1DA75, 0x1DA75),
     (0x1DA84, 0x1DA84), (0x1DA9B, 0x1DA9F), (0x1DAA1, 0x1DAAF), (0x1E000, 0x1E006),
     (0x1E008, 0x1E018), (0x1E01B, 0x1E021), (0x1E023, 0x1E024), (0x1E026, 0x1E02A),
     (0x1E130, 0x1E13D), (0x1E2AE, 0x1E2AE), (0x1E2EC, 0x1E2EF), (0x1E8D0, 0x1E8D6),
     (0x1E944, 0x1E94B), (0x1F3FB, 0x1F3FF), (0xE0001, 0xE0001), (0xE0020, 0xE007F),
     (0xE0100, 0xE01EF)]"

fun lookupLower :: "(nat \<times> nat \<times> nat \<times> int) list \<Rightarrow> nat \<Rightarrow> nat" where
  "lookupLower [] c = c"
| "lookupLower ((lo, hi, step, delta) # rs) c =
     (if lo \<le> c \<and> c \<le> hi \<and> (c - lo) mod step = 0 then nat (int c + delta)
      else lookupLower rs c)"

fun inRanges :: "(nat \<times> nat) list \<Rightarrow> nat \<Rightarrow> bool" where
  "inRanges [] c = False"
| "inRanges ((lo, hi) # rs) c = ((lo \<le> c \<and> c \<le> hi) \<or> inRanges rs c)"

text \<open>
  The lower-case mapping of one code point. The capital I with dot above is the one
  code point whose mapping has two code points.
\<close>

definition lowerPoint :: "nat \<Rightarrow> nat list" where
  "lowerPoint c =
     (if c < 0x80 then [if 0x41 \<le> c \<and> c \<le> 0x5A then c + 32 else c]
      else if c = 0x130 then [0x69, 0x307]
      else [lookupLower lowerTable c])"

text \<open>
  The context of a capital sigma: going away from it and skipping case-ignorable
  characters, is the first other character a cased letter?
\<close>

fun casedNext :: "nat list \<Rightarrow> bool" where
  "casedNext [] = False"
| "casedNext (c # cs) =
     (if inRanges ignorableTable c then casedNext cs else inRanges casedTable c)"

text \<open>
  \<open>passed\<close> holds the code points already passed, the nearest first. A capital sigma
  becomes the final small sigma when a cased letter stands before it and none after it.
\<close>

fun lowerPoints :: "nat list \<Rightarrow> nat list \<Rightarrow> nat list" where
  "lowerPoints passed [] = []"
| "lowerPoints passed (c # cs) =
     (if c = 0x3A3 then [if casedNext passed \<and> \<not> casedNext cs then 0x3C2 else 0x3C3]
      else lowerPoint c)
     @ lowerPoints (c # passed) cs"

definition toLowerCase :: "string \<Rightarrow> string" where
  "toLowerCase s = encode (lowerPoints [] (decode s))"

text \<open>\<open>t.startsWith(s)\<close> and \<open>t.includes(s)\<close>: \<open>s\<close> occurs in \<open>t\<close> at some position.\<close>

fun startsWith :: "string \<Rightarrow> string \<Rightarrow> bool" where
  "startsWith t [] = True"
| "startsWith [] (c # s) = False"
| "startsWith (d # t) (c # s) = (d = c \<and> startsWith t s)"

fun js_includes :: "string \<Rightarrow> string \<Rightarrow> bool" where
  "js_includes [] s = (s = [])"
| "js_includes (d # t) s = (startsWith (d # t) s \<or> js_includes t s)"

text \<open>\<open>Array.prototype.some\<close>.\<close>

fun some_js :: "('a \<Rightarrow> bool) \<Rightarrow> 'a list \<Rightarrow> bool" where
  "some_js f [] = False"
| "some_js f (x # xs) = (f x \<or> some_js f xs)"

text \<open>A string is truthy when it is not empty; \<open>undefined\<close> (\<open>None\<close>) is falsy.\<close>

fun truthy :: "string option \<Rightarrow> bool" where
  "truthy None = False"
| "truthy (Some s) = (s \<noteq> [])"

subsection \<open>Reading numbers from strings\<close>

text \<open>
  \<open>parseFloat\<close> and \<open>parseInt\<close> skip leading white space (here the ASCII white space
  and line ends) and read the longest prefix that is a number; what follows is ignored.
  The value read is exact.
\<close>

definition isWhiteSpace :: "char \<Rightarrow> bool" where
  "isWhiteSpace c = ((of_char c :: nat) \<in> {9, 10, 11, 12, 13, 32})"

definition isDigit :: "char \<Rightarrow> bool" where
  "isDigit c = (48 \<le> (of_char c :: nat) \<and> (of_char c :: nat) \<le> 57)"

definition digitVal :: "char \<Rightarrow> nat" where
  "digitVal c = (of_char c :: nat) - 48"

text \<open>The value of a run of decimal digits, most significant first.\<close>

definition digitsVal :: "string \<Rightarrow> nat" where
  "digitsVal ds = foldl (\<lambda>acc c. 10 * acc + digitVal c) 0 ds"

text \<open>
  The exponent part \<open>e\<close>, optional sign, digits. It counts only when at least one digit
  follows; otherwise the literal ends before the \<open>e\<close>.
\<close>

definition exponentPart :: "string \<Rightarrow> int" where
  "exponentPart r =
     (case r of
        [] \<Rightarrow> 0
      | c # r1 \<Rightarrow>
          if c = CHR ''e'' \<or> c = CHR ''E'' then
            (case r1 of
               [] \<Rightarrow> 0
             | s # r2 \<Rightarrow>
                 if s = CHR ''-'' then
                   (if takeWhile isDigit r2 = [] then 0
                    else - int (digitsVal (takeWhile isDigit r2)))
                 else if s = CHR ''+'' then int (digitsVal (takeWhile isDigit r2))
                 else int (digitsVal (takeWhile isDigit r1)))
          else 0)"

definition pow10 :: "int \<Rightarrow> rat" where
  "pow10 e = (if e \<ge> 0 then 10 ^ nat e else 1 / 10 ^ nat (- e))"

text \<open>
  \<open>StrUnsignedDecimalLiteral\<close>: \<open>Infinity\<close>, or digits with an optional fraction and
  an optional exponent, or a fraction that starts with the point. The longest prefix
  of that shape is read; when there is none the result is NaN.
\<close>

definition unsignedDecimal :: "string \<Rightarrow> jsnum" where
  "unsignedDecimal r =
     (if startsWith r ''Infinity'' then PInf
      else
        let ip = takeWhile isDigit r;
            r1 = dropWhile isDigit r;
            hasPoint = (r1 \<noteq> [] \<and> hd r1 = CHR ''.'');
            fp = (if hasPoint then takeWhile isDigit (tl r1) else []);
            r2 = (if hasPoint then dropWhile isDigit (tl r1) else r1)
        in if ip = [] \<and> fp = [] then NaN
           else Fin ((of_nat (digitsVal ip) + of_nat (digitsVal fp) / 10 ^ length fp)
                     * pow10 (exponentPart r2)))"

definition parseFloat :: "string \<Rightarrow> jsnum" where
  "parseFloat s =
     (let t = dropWhile isWhiteSpace s in
      case t of
        [] \<Rightarrow> NaN
      | c # r \<Rightarrow>
          if c = CHR ''-'' then js_neg (unsignedDecimal r)
          else if c = CHR ''+'' then unsignedDecimal r
          else unsignedDecimal t)"

text \<open>
  \<open>parseInt\<close> without a radix: leading white space, an optional sign, the prefix
  \<open>0x\<close> or \<open>0X\<close> for base 16, then the longest run of digits of the base. With no
  digit the result is NaN.
\<close>

definition isHexDigit :: "char \<Rightarrow> bool" where
  "isHexDigit c =
     (let n = (of_char c :: nat) in
      (48 \<le> n \<and> n \<le> 57) \<or> (65 \<le> n \<and> n \<le> 70) \<or> (97 \<le> n \<and> n \<le> 102))"

definition hexVal :: "char \<Rightarrow> nat" where
  "hexVal c =
     (let n = (of_char c :: nat) in
      if n \<le> 57 then n - 48 else if n \<le> 70 then n - 55 else n - 87)"

definition unsignedInt :: "string \<Rightarrow> jsnum" where
  "unsignedInt r =
     (if startsWith r ''0x'' \<or> startsWith r ''0X'' then
        (let ds = takeWhile isHexDigit (drop 2 r) in
         if ds = [] then NaN
         else Fin (of_nat (foldl (\<lambda>acc c. 16 * acc + hexVal c) 0 ds)))
      else
        (let ds = takeWhile isDigit r in
         if ds = [] then NaN else Fin (of_nat (digitsVal ds))))"

definition parseInt :: "string \<Rightarrow> jsnum" where
  "parseInt s =
     (let t = dropWhile isWhiteSpace s in
      case t of
        [] \<Rightarrow> NaN
      | c # r \<Rightarrow>
          if c = CHR ''-'' then js_neg (unsignedInt r)
          else if c = CHR ''+'' then unsignedInt r
          else unsignedInt t)"

section \<open>The catalog\<close>

text \<open>
  A product of \<open>data.json\<close>. The field \<open>id\<close> of the source is \<open>id_p\<close> here. Identifiers,
  spiciness levels and review counts are integers; prices and ratings are numbers.
\<close>

record product =
  id_p :: int
  name :: string
  description :: string
  category :: string
  price :: jsnum
  available :: bool
  spicyLevel :: int
  rating :: jsnum
  reviews :: int
  ingredients :: "string list"

datatype json =
  JNull
| JBool bool
| JNumber jsnum
| JString string
| JArray "json list"
| JObject "(string \<times> json) list"

text \<open>The three values exported by \<open>database.js\<close>.\<close>

record database =
  products :: "product list"
  categories :: "string list"
  restaurantInfo :: json

definition num :: "int \<Rightarrow> jsnum" where
  "num i = Fin (of_int i)"

section \<open>The loader (\<open>database.js\<close>)\<close>

text \<open>
  A computation that may throw is a value of \<open>js_error + 'a\<close>, \<open>Inl\<close> the exception.
  \<open>fs.readFileSync\<close> and \<open>JSON.parse\<close> belong to the platform; the loader takes them
  as arguments, so that every outcome of reading and parsing is covered.
\<close>

datatype js_error = IOError string | SyntaxError string

definition path_join :: "string \<Rightarrow> string \<Rightarrow> string" where
  "path_join dir file = dir @ ''/'' @ file"

text \<open>The body of the \<open>try\<close> block: read the file, then parse what was read.\<close>

definition readAndParse ::
  "(string \<Rightarrow> js_error + string) \<Rightarrow> (string \<Rightarrow> js_error + json) \<Rightarrow> string \<Rightarrow> js_error + json" where
  "readAndParse readFileSync JSON_parse dirname =
     (let dataPath = path_join dirname ''data.json'' in
      case readFileSync dataPath of
        Inl e \<Rightarrow> Inl e
      | Inr rawData \<Rightarrow> JSON_parse rawData)"

definition emptyData :: json where
  "emptyData =
     JObject [(''products'', JArray []), (''categories'', JArray []),
              (''restaurantInfo'', JObject [])]"

text \<open>
  \<open>loadData\<close>: the \<open>catch\<close> clause writes the exception to the console and returns the
  empty document. The result pairs the console output with the returned value.
\<close>

definition loadData ::
  "(string \<Rightarrow> js_error + string) \<Rightarrow> (string \<Rightarrow> js_error + json) \<Rightarrow> string
     \<Rightarrow> js_error + (js_error list \<times> json)" where
  "loadData readFileSync JSON_parse dirname =
     (case readAndParse readFileSync JSON_parse dirname of
        Inr doc \<Rightarrow> Inr ([], doc)
      | Inl error \<Rightarrow> Inr ([error], emptyData))"

section \<open>The request handlers\<close>

text \<open>
  A handler answers with an error response (status and message) or with its success
  body. The query parameters of a request are strings, \<open>None\<close> when absent; a
  parameter that is given several times or with brackets is not a string and is not
  covered. With products and parameters of these types no handler body throws, so the
  \<open>catch\<close> clauses of the handlers have no counterpart here.
\<close>

record error_response =
  status :: nat
  message :: string

record filters =
  f_category :: "string option"
  f_minPrice :: "string option"
  f_maxPrice :: "string option"
  f_available :: "string option"
  f_spicyLevel :: "string option"
  f_search :: "string option"

record list_response =
  count :: nat
  data :: "product list"

subsection \<open>\<open>GET /api/products\<close>\<close>

definition byCategory :: "string option \<Rightarrow> product list \<Rightarrow> product list" where
  "byCategory c ps =
     (if truthy c
      then filter (\<lambda>product. toLowerCase (category product) = toLowerCase (the c)) ps
      else ps)"

definition byMinPrice :: "string option \<Rightarrow> product list \<Rightarrow> product list" where
  "byMinPrice m ps =
     (if truthy m
      then filter (\<lambda>product. js_ge (price product) (parseFloat (the m))) ps
      else ps)"

definition byMaxPrice :: "string option \<Rightarrow> product list \<Rightarrow> product list" where
  "byMaxPrice m ps =
     (if truthy m
      then filter (\<lambda>product. js_le (price product) (parseFloat (the m))) ps
      else ps)"

definition byAvailable :: "string option \<Rightarrow> product list \<Rightarrow> product list" where
  "byAvailable a ps =
     (case a of
        None \<Rightarrow> ps
      | Some v \<Rightarrow> filter (\<lambda>product. available product = (v = ''true'')) ps)"

definition bySpicyLevel :: "string option \<Rightarrow> product list \<Rightarrow> product list" where
  "bySpicyLevel l ps =
     (case l of
        None \<Rightarrow> ps
      | Some v \<Rightarrow> filter (\<lambda>product. js_le (num (spicyLevel product)) (parseInt v)) ps)"

definition matchesSearch :: "string \<Rightarrow> product \<Rightarrow> bool" where
  "matchesSearch searchTerm product =
     (js_includes (toLowerCase (name product)) searchTerm \<or>
      js_includes (toLowerCase (description product)) searchTerm \<or>
      some_js (\<lambda>ingredient. js_includes (toLowerCase ingredient) searchTerm)
        (ingredients product))"

definition bySearch :: "string option \<Rightarrow> product list \<Rightarrow> product list" where
  "bySearch s ps =
     (if truthy s
      then (let searchTerm = toLowerCase (the s) in filter (matchesSearch searchTerm) ps)
      else ps)"

definition listProducts :: "database \<Rightarrow> filters \<Rightarrow> list_response" where
  "listProducts db q =
     (let filteredProducts =
            bySearch (f_search q)
              (bySpicyLevel (f_spicyLevel q)
                (byAvailable (f_available q)
                  (byMaxPrice (f_maxPrice q)
                    (byMinPrice (f_minPrice q)
                      (byCategory (f_category q) (products db))))))
      in \<lparr>count = length filteredProducts, data = filteredProducts\<rparr>)"

definition noFilters :: filters where
  "noFilters =
     \<lparr>f_category = None, f_minPrice = None, f_maxPrice = None, f_available = None,
      f_spicyLevel = None, f_search = None\<rparr>"

subsection \<open>\<open>GET /api/products/:id\<close>\<close>

definition getProductById :: "database \<Rightarrow> string \<Rightarrow> error_response + product" where
  "getProductById db ident =
     (let productId = parseInt ident in
      case find (\<lambda>p. js_eq (num (id_p p)) productId) (products db) of
        None \<Rightarrow> Inl \<lparr>status = 404, message = ''Producto no encontrado''\<rparr>
      | Some product \<Rightarrow> Inr product)"

subsection \<open>\<open>GET /api/products/category/:category\<close>\<close>

text \<open>The success body repeats the route parameter in its field \<open>category\<close>.\<close>

record category_response = list_response +
  category_param :: string

definition listProductsByCategory :: "database \<Rightarrow> string \<Rightarrow> error_response + category_response" where
  "listProductsByCategory db c =
     (let categoryProducts =
            filter (\<lambda>product. toLowerCase (category product) = toLowerCase c) (products db)
      in if length categoryProducts = 0
         then Inl \<lparr>status = 404,
                   message = ''No se encontraron productos en esta categor''
                             @ [CHR 0xC3, CHR 0xAD] @ ''a''\<rparr>
         else Inr \<lparr>count = length categoryProducts, data = categoryProducts,
                   category_param = c\<rparr>)"

subsection \<open>\<open>GET /api/categories\<close>\<close>

record category_entry =
  entry_name :: string
  entry_count :: nat

definition listCategories :: "database \<Rightarrow> category_entry list" where
  "listCategories db =
     map (\<lambda>c. \<lparr>entry_name = c,
               entry_count = length (filter (\<lambda>product. category product = c) (products db))\<rparr>)
       (categories db)"

definition getRestaurantInfo :: "database \<Rightarrow> json" where
  "getRestaurantInfo db = restaurantInfo db"

subsection \<open>\<open>GET /api/products/featured\<close>\<close>

text \<open>
  \<open>Array.prototype.sort\<close> with a comparison function: the sort is stable, an element
  moves behind another one only when the comparison of the two is positive, and a
  comparison that yields NaN counts as zero. The model inserts the elements one by one
  from the right, which gives the order the language prescribes whenever the comparison
  is consistent, as the one on numeric ratings is.
\<close>

fun insert_sorted :: "('a \<Rightarrow> 'a \<Rightarrow> jsnum) \<Rightarrow> 'a \<Rightarrow> 'a list \<Rightarrow> 'a list" where
  "insert_sorted cmp x [] = [x]"
| "insert_sorted cmp x (y # ys) =
     (if js_gt (cmp x y) (Fin 0) then y # insert_sorted cmp x ys else x # y # ys)"

definition sort_js :: "('a \<Rightarrow> 'a \<Rightarrow> jsnum) \<Rightarrow> 'a list \<Rightarrow> 'a list" where
  "sort_js cmp xs = foldr (insert_sorted cmp) xs []"

definition slice :: "nat \<Rightarrow> nat \<Rightarrow> 'a list \<Rightarrow> 'a list" where
  "slice i j xs = take (j - i) (drop i xs)"

definition byRatingDesc :: "product \<Rightarrow> product \<Rightarrow> jsnum" where
  "byRatingDesc a b = js_sub (rating b) (rating a)"

definition getFeaturedProducts :: "database \<Rightarrow> list_response" where
  "getFeaturedProducts db =
     (let featuredProducts =
            slice 0 6
              (sort_js byRatingDesc
                (filter (\<lambda>product. js_ge (rating product) (Fin (9 / 2))) (products db)))
      in \<lparr>count = length featuredProducts, data = featuredProducts\<rparr>)"

subsection \<open>\<open>GET /api/stats\<close>\<close>

fun showNat :: "nat \<Rightarrow> string" where
  "showNat n =
     (if n < 10 then [char_of (48 + n)]
      else showNat (n div 10) @ [char_of (48 + n mod 10)])"

text \<open>
  \<open>Number::toString\<close> of a value of at least \<open>10\<^sup>2\<^sup>1\<close>, which is printed with an
  exponent. A double of that size is an integer; the digits are those of the integer part
  of the exact value, without the zeros at the end.
\<close>

definition stripZeros :: "string \<Rightarrow> string" where
  "stripZeros ds = rev (dropWhile (\<lambda>c. c = CHR ''0'') (rev ds))"

definition showLarge :: "rat \<Rightarrow> string" where
  "showLarge a =
     (let ds = showNat (nat \<lfloor>a\<rfloor>);
          e = length ds - 1;
          sig = stripZeros ds
      in (if length sig \<le> 1 then sig else take 1 sig @ ''.'' @ drop 1 sig)
         @ ''e+'' @ showNat e)"

text \<open>
  \<open>Number.prototype.toFixed\<close>: a value that is not finite is printed by name; a finite
  one is rounded to the nearest multiple of \<open>10\<^sup>-\<^sup>f\<close>, the larger one on a tie.
\<close>

fun toFixed :: "nat \<Rightarrow> jsnum \<Rightarrow> string" where
  "toFixed f NaN = ''NaN''"
| "toFixed f PInf = ''Infinity''"
| "toFixed f NInf = ''-Infinity''"
| "toFixed f (Fin x) =
     (let s = (if x < 0 then ''-'' else []);
          a = \<bar>x\<bar>
      in if a \<ge> 10 ^ 21 then s @ showLarge a
         else
           let n = nat \<lfloor>a * 10 ^ f + 1 / 2\<rfloor>;
               m = showNat n
           in if f = 0 then s @ m
              else
                let m' = (if length m \<le> f then replicate (f + 1 - length m) CHR ''0'' @ m
                          else m);
                    k = length m'
                in s @ take (k - f) m' @ ''.'' @ drop (k - f) m')"

record stats =
  totalProducts :: nat
  totalCategories :: nat
  averagePrice :: string
  averageRating :: string
  totalReviews :: int
  availableProducts :: nat
  vegetarianOptions :: nat
  spicyOptions :: nat

definition getStats :: "database \<Rightarrow> stats" where
  "getStats db =
     \<lparr>totalProducts = length (products db),
      totalCategories = length (categories db),
      averagePrice =
        toFixed 2
          (js_div (foldl (\<lambda>sum product. js_add sum (price product)) (Fin 0) (products db))
                  (Fin (of_nat (length (products db))))),
      averageRating =
        toFixed 1
          (js_div (foldl (\<lambda>sum product. js_add sum (rating product)) (Fin 0) (products db))
                  (Fin (of_nat (length (products db))))),
      totalReviews = foldl (\<lambda>sum product. sum + reviews product) 0 (products db),
      availableProducts = length (filter (\<lambda>product. available product) (products db)),
      vegetarianOptions =
        length (filter (\<lambda>product. category product = ''Vegetariano'') (products db)),
      spicyOptions = length (filter (\<lambda>product. spicyLevel product > 0) (products db))\<rparr>"

section \<open>The catalog of the worked example\<close>

definition product1 :: product where
  "product1 =
     \<lparr>id_p = 1, name = ''Ensalada'', description = ''Ensalada fresca'',
      category = ''Vegetarian'', price = Fin 10, available = True, spicyLevel = 0,
      rating = Fin (24 / 5), reviews = 5, ingredients = [''Lechuga'', ''Tomate'']\<rparr>"

definition product2 :: product where
  "product2 =
     \<lparr>id_p = 2, name = ''Tacos'', description = ''Tacos al pastor'',
      category = ''Meat'', price = Fin 20, available = False, spicyLevel = 3,
      rating = Fin (21 / 5), reviews = 2, ingredients = [''Cerdo'', ''Chile'']\<rparr>"

definition exampleDb :: database where
  "exampleDb =
     \<lparr>products = [product1, product2], categories = [''Vegetarian'', ''Meat''],
      restaurantInfo = JObject []\<rparr>"

definition emptyDb :: database where
  "emptyDb = \<lparr>products = [], categories = [], restaurantInfo = JObject []\<rparr>"

text \<open>
  The catalog of the worked example has two products. The example gives their
  identifier, category, price, rating, spiciness, availability and review count; the
  remaining fields are filled in here. \<open>menuDb\<close> is the same catalog with the category
  names of the data the service ships with, and \<open>ratedDb\<close> has nine products that
  differ in their ratings only.
\<close>

definition menuDb :: database where
  "menuDb =
     \<lparr>products = [product1\<lparr>category := ''Vegetariano''\<rparr>, product2\<lparr>category := ''Carnes''\<rparr>],
      categories = [''Vegetariano'', ''Carnes''], restaurantInfo = JObject []\<rparr>"

definition ratedDb :: database where
  "ratedDb =
     \<lparr>products = map (\<lambda>(i, r). product1\<lparr>id_p := i, rating := r\<rparr>)
        [(1, Fin (23 / 5)), (2, Fin 5), (3, Fin 4), (4, Fin (9 / 2)), (5, Fin (24 / 5)),
         (6, Fin 5), (7, Fin (47 / 10)), (8, Fin (49 / 10)), (9, Fin (23 / 5))],
      categories = [], restaurantInfo = JObject []\<rparr>"

definition exampleQuery :: filters where
  "exampleQuery = noFilters\<lparr>f_category := Some ''MEAT'', f_maxPrice := Some ''25''\<rparr>"

text \<open>
  A catalog with one product, named by the three Greek capitals alpha, sigma, alpha, and
  a search term made of the first two of them.
\<close>

definition sigmaTerm :: string where
  "sigmaTerm = [CHR 0xCE, CHR 0x91, CHR 0xCE, CHR 0xA3]"

definition sigmaProduct :: product where
  "sigmaProduct =
     product1\<lparr>name := sigmaTerm @ [CHR 0xCE, CHR 0x91], description := [], ingredients := []\<rparr>"

definition sigmaDb :: database where
  "sigmaDb = \<lparr>products = [sigmaProduct], categories = [], restaurantInfo = JObject []\<rparr>"

text \<open>Sample behaviours of the file system and of the parser, for the loader.\<close>

definition noFile :: "string \<Rightarrow> js_error + string" where
  "noFile p = Inl (IOError ''ENOENT'')"

definition fileWith :: "string \<Rightarrow> string \<Rightarrow> js_error + string" where
  "fileWith content p =
     (if p = ''/app/data.json'' then Inr content else Inl (IOError ''ENOENT''))"

definition sampleParse :: "string \<Rightarrow> js_error + json" where
  "sampleParse raw =
     (if raw = ''{}'' then Inr (JObject []) else Inl (SyntaxError ''Unexpected token''))"

section \<open>Notions of the specification\<close>

text \<open>
  Two notions of the specification for the search filter. \<open>occurs u t\<close>: the string \<open>u\<close>
  is a substring of \<open>t\<close>. \<open>ci_substring s t\<close>: up to the case of the letters \<open>A\<close> to \<open>Z\<close>,
  \<open>s\<close> is a substring of \<open>t\<close>, that is, some contiguous part of \<open>t\<close> has the length of \<open>s\<close>
  and agrees with it position by position, where two characters agree when they are the
  same or are the capital and the small form of one letter. Neither notion refers to
  \<open>toLowerCase\<close>. \<open>ascii s\<close>: the text \<open>s\<close> has ASCII characters only.
\<close>

definition occurs :: "string \<Rightarrow> string \<Rightarrow> bool" where
  "occurs u t = (\<exists>pre post. t = pre @ u @ post)"

definition isCapital :: "char \<Rightarrow> bool" where
  "isCapital c = (0x41 \<le> byte c \<and> byte c \<le> 0x5A)"

definition same_letter :: "char \<Rightarrow> char \<Rightarrow> bool" where
  "same_letter c d =
     (c = d \<or> (isCapital c \<and> byte d = byte c + 32) \<or> (isCapital d \<and> byte c = byte d + 32))"

definition ci_substring :: "string \<Rightarrow> string \<Rightarrow> bool" where
  "ci_substring s t = (\<exists>pre u post. t = pre @ u @ post \<and> list_all2 same_letter u s)"

definition ascii :: "string \<Rightarrow> bool" where
  "ascii s = list_all (\<lambda>c. byte c < 0x80) s"

text \<open>
  The specification's \<open>getProductById\<close> takes an integer; the route receives it written
  in decimal digits, with a minus sign when negative.
\<close>

definition decimal :: "int \<Rightarrow> string" where
  "decimal i = (if i < 0 then CHR ''-'' # showNat (nat (- i)) else showNat (nat i))"

text \<open>
  Predicates and functions used in the proofs: the products that a query keeps, the
  products that pass the rating threshold of the featured list, and the lower-case
  mapping of one ASCII character.
\<close>

definition lower_char :: "char \<Rightarrow> char" where
  "lower_char c = (if isCapital c then char_of (byte c + 32) else c)"

definition selects :: "filters \<Rightarrow> product \<Rightarrow> bool" where
  "selects q p =
     ((truthy (f_category q) \<longrightarrow> toLowerCase (category p) = toLowerCase (the (f_category q))) \<and>
      (truthy (f_minPrice q) \<longrightarrow> js_ge (price p) (parseFloat (the (f_minPrice q)))) \<and>
      (truthy (f_maxPrice q) \<longrightarrow> js_le (price p) (parseFloat (the (f_maxPrice q)))) \<and>
      (\<forall>v. f_available q = Some v \<longrightarrow> available p = (v = ''true'')) \<and>
      (\<forall>v. f_spicyLevel q = Some v \<longrightarrow> js_le (num (spicyLevel p)) (parseInt v)) \<and>
      (truthy (f_search q) \<longrightarrow> matchesSearch (toLowerCase (the (f_search q))) p))"

definition featured :: "product \<Rightarrow> bool" where
  "featured p = js_ge (rating p) (Fin (9 / 2))"

section \<open>Statistics\<close>

lemma vegetarianOptions_getStats:
  "vegetarianOptions (getStats db) =
     length (filter (\<lambda>product. category product = ''Vegetariano'') (products db))"
  by (simp add: getStats_def)

text \<open>
  Claim C10. On an empty product collection \<open>getStats\<close> returns a record: the counts
  and the sum of reviews are 0, and the two averages are the string \<open>NaN\<close>, the result
  of formatting \<open>0 / 0\<close>.
\<close>

theorem C10_empty_stats:
  "products db = [] \<Longrightarrow>
   getStats db =
     \<lparr>totalProducts = 0, totalCategories = length (categories db),
      averagePrice = ''NaN'', averageRating = ''NaN'', totalReviews = 0,
      availableProducts = 0, vegetarianOptions = 0, spicyOptions = 0\<rparr>"
  by (simp add: getStats_def)

theorem C10_empty_stats_witness:
  "products emptyDb = [] \<and>
   getStats emptyDb =
     \<lparr>totalProducts = 0, totalCategories = 0,
      averagePrice = ''NaN'', averageRating = ''NaN'', totalReviews = 0,
      availableProducts = 0, vegetarianOptions = 0, spicyOptions = 0\<rparr>"
proof -
  have e: "products emptyDb = []" by (simp add: emptyDb_def)
  from C10_empty_stats [OF e] e show ?thesis by (simp add: emptyDb_def)
qed

text \<open>
  Claim C1, as stated: \<open>vegetarianOptions\<close> counts the products of category
  \<open>Vegetarian\<close>, and is 1 on the catalog of the worked example. The handler compares
  with the literal \<open>Vegetariano\<close>, so on that catalog, whose first product has the
  category \<open>Vegetarian\<close>, the count is not 1.
\<close>

theorem C1_counterexample:
  "products exampleDb = [product1, product2] \<and> category product1 = ''Vegetarian'' \<and>
   vegetarianOptions (getStats exampleDb) \<noteq> 1"
  by (simp add: vegetarianOptions_getStats exampleDb_def product1_def product2_def)

text \<open>
  Claim C1, amended: \<open>vegetarianOptions\<close> is the number of positions of the product
  list whose category is exactly the literal \<open>Vegetariano\<close>; on the catalog of the worked
  example it is 0.
\<close>

theorem C1_vegetarianOptions:
  "vegetarianOptions (getStats db) =
     card {i. i < length (products db) \<and> category (products db ! i) = ''Vegetariano''} \<and>
   vegetarianOptions (getStats exampleDb) = 0"
  by (simp add: vegetarianOptions_getStats length_filter_conv_card exampleDb_def
      product1_def product2_def)

theorem C1_vegetarianOptions_witness:
  "vegetarianOptions (getStats menuDb) = 1 \<and>
   card {i. i < length (products menuDb) \<and> category (products menuDb ! i) = ''Vegetariano''} = 1"
proof -
  have v: "vegetarianOptions (getStats menuDb) = 1" by code_simp
  note c = C1_vegetarianOptions [of menuDb, THEN conjunct1, symmetric]
  from v c show ?thesis by (simp only:)
qed

section \<open>Listing and filtering products\<close>

lemma js_le_NaN_right [simp]: "js_le a NaN = False"
  by (cases a) simp_all

lemma js_ge_NaN_right [simp]: "js_ge a NaN = False"
  by (simp add: js_ge_def)

text \<open>The chain of filters keeps exactly the products that the query selects.\<close>

lemma listProducts_filter:
  "listProducts db q =
     \<lparr>count = length (filter (selects q) (products db)),
      data = filter (selects q) (products db)\<rparr>"
proof -
  have "bySearch (f_search q)
          (bySpicyLevel (f_spicyLevel q)
            (byAvailable (f_available q)
              (byMaxPrice (f_maxPrice q)
                (byMinPrice (f_minPrice q)
                  (byCategory (f_category q) (products db)))))) =
        filter (selects q) (products db)"
    by (cases "f_available q"; cases "f_spicyLevel q")
       (auto simp: bySearch_def bySpicyLevel_def byAvailable_def byMaxPrice_def
          byMinPrice_def byCategory_def selects_def Let_def intro!: filter_cong)
  then show ?thesis by (simp add: listProducts_def Let_def)
qed

text \<open>
  Claim C5. For every catalog and every query, the set of products that \<open>listProducts\<close>
  returns is the intersection of the sets returned for each of the six filters alone
  (an absent filter returns the whole collection); the count is the length of the
  returned sequence, and with no filter the whole collection is returned.
\<close>

theorem C5_filters_intersect:
  "set (data (listProducts db q)) =
     set (data (listProducts db (noFilters\<lparr>f_category := f_category q\<rparr>))) \<inter>
     set (data (listProducts db (noFilters\<lparr>f_minPrice := f_minPrice q\<rparr>))) \<inter>
     set (data (listProducts db (noFilters\<lparr>f_maxPrice := f_maxPrice q\<rparr>))) \<inter>
     set (data (listProducts db (noFilters\<lparr>f_available := f_available q\<rparr>))) \<inter>
     set (data (listProducts db (noFilters\<lparr>f_spicyLevel := f_spicyLevel q\<rparr>))) \<inter>
     set (data (listProducts db (noFilters\<lparr>f_search := f_search q\<rparr>))) \<and>
   count (listProducts db q) = length (data (listProducts db q)) \<and>
   listProducts db noFilters = \<lparr>count = length (products db), data = products db\<rparr>"
proof (intro conjI)
  show "set (data (listProducts db q)) =
     set (data (listProducts db (noFilters\<lparr>f_category := f_category q\<rparr>))) \<inter>
     set (data (listProducts db (noFilters\<lparr>f_minPrice := f_minPrice q\<rparr>))) \<inter>
     set (data (listProducts db (noFilters\<lparr>f_maxPrice := f_maxPrice q\<rparr>))) \<inter>
     set (data (listProducts db (noFilters\<lparr>f_available := f_available q\<rparr>))) \<inter>
     set (data (listProducts db (noFilters\<lparr>f_spicyLevel := f_spicyLevel q\<rparr>))) \<inter>
     set (data (listProducts db (noFilters\<lparr>f_search := f_search q\<rparr>)))"
    unfolding listProducts_filter by (auto simp: selects_def noFilters_def)
  show "count (listProducts db q) = length (data (listProducts db q))"
    by (simp add: listProducts_filter)
  show "listProducts db noFilters = \<lparr>count = length (products db), data = products db\<rparr>"
    by (simp add: listProducts_filter selects_def noFilters_def)
qed

theorem C5_filters_intersect_witness:
  "set (data (listProducts exampleDb exampleQuery)) = {product2} \<and>
   set (data (listProducts exampleDb (noFilters\<lparr>f_category := f_category exampleQuery\<rparr>))) \<inter>
   set (data (listProducts exampleDb (noFilters\<lparr>f_minPrice := f_minPrice exampleQuery\<rparr>))) \<inter>
   set (data (listProducts exampleDb (noFilters\<lparr>f_maxPrice := f_maxPrice exampleQuery\<rparr>))) \<inter>
   set (data (listProducts exampleDb (noFilters\<lparr>f_available := f_available exampleQuery\<rparr>))) \<inter>
   set (data (listProducts exampleDb (noFilters\<lparr>f_spicyLevel := f_spicyLevel exampleQuery\<rparr>))) \<inter>
   set (data (listProducts exampleDb (noFilters\<lparr>f_search := f_search exampleQuery\<rparr>))) =
     {product2}"
proof -
  have d: "data (listProducts exampleDb exampleQuery) = [product2]"
    by code_simp
  have s: "set (data (listProducts exampleDb exampleQuery)) = {product2}"
    by (simp only: d) simp
  note t = C5_filters_intersect [of exampleDb exampleQuery, THEN conjunct1]
  from s t show ?thesis by simp
qed

text \<open>
  Claim C6, as stated: whenever a supplied \<open>minPrice\<close> or \<open>maxPrice\<close> does not parse to
  a number, the result is empty. The empty string does not parse to a number, and the
  request \<open>?minPrice=\<close> supplies it; the handler tests the parameter for truthiness, so
  that request returns both products of the example catalog.
\<close>

theorem C6_counterexample:
  "parseFloat [] = NaN \<and>
   listProducts exampleDb (noFilters\<lparr>f_minPrice := Some []\<rparr>) =
     \<lparr>count = 2, data = [product1, product2]\<rparr>"
  by code_simp

text \<open>
  Claim C6, amended: whenever a supplied, non-empty \<open>minPrice\<close> or \<open>maxPrice\<close> does not
  parse to a number, \<open>listProducts\<close> returns the empty sequence with count 0, whatever
  the other filters are; a bound supplied as the empty string is treated as absent.
\<close>

theorem C6_unparsable_bound:
  "((\<exists>s. f_minPrice q = Some s \<and> s \<noteq> [] \<and> parseFloat s = NaN) \<or>
    (\<exists>s. f_maxPrice q = Some s \<and> s \<noteq> [] \<and> parseFloat s = NaN)
      \<longrightarrow> listProducts db q = \<lparr>count = 0, data = []\<rparr>) \<and>
   listProducts db (q\<lparr>f_minPrice := Some []\<rparr>) = listProducts db (q\<lparr>f_minPrice := None\<rparr>) \<and>
   listProducts db (q\<lparr>f_maxPrice := Some []\<rparr>) = listProducts db (q\<lparr>f_maxPrice := None\<rparr>)"
proof (intro conjI impI)
  assume "(\<exists>s. f_minPrice q = Some s \<and> s \<noteq> [] \<and> parseFloat s = NaN) \<or>
    (\<exists>s. f_maxPrice q = Some s \<and> s \<noteq> [] \<and> parseFloat s = NaN)"
  then have "\<And>p. \<not> selects q p"
    by (auto simp: selects_def)
  then show "listProducts db q = \<lparr>count = 0, data = []\<rparr>"
    by (simp add: listProducts_filter)
next
  show "listProducts db (q\<lparr>f_minPrice := Some []\<rparr>) = listProducts db (q\<lparr>f_minPrice := None\<rparr>)"
    by (simp add: listProducts_def byMinPrice_def)
  show "listProducts db (q\<lparr>f_maxPrice := Some []\<rparr>) = listProducts db (q\<lparr>f_maxPrice := None\<rparr>)"
    by (simp add: listProducts_def byMaxPrice_def)
qed

theorem C6_unparsable_bound_witness:
  "f_minPrice (noFilters\<lparr>f_minPrice := Some ''abc''\<rparr>) = Some ''abc'' \<and> ''abc'' \<noteq> [] \<and>
   parseFloat ''abc'' = NaN \<and>
   listProducts exampleDb (noFilters\<lparr>f_minPrice := Some ''abc''\<rparr>) = \<lparr>count = 0, data = []\<rparr>"
proof -
  have a: "parseFloat ''abc'' = NaN" by code_simp
  have b: "f_minPrice (noFilters\<lparr>f_minPrice := Some ''abc''\<rparr>) = Some ''abc''" by simp
  from C6_unparsable_bound [of "noFilters\<lparr>f_minPrice := Some ''abc''\<rparr>" exampleDb] a b
  show ?thesis by simp
qed

subsection \<open>Search\<close>

lemma startsWith_iff: "startsWith t s = (\<exists>post. t = s @ post)"
  by (induction t s rule: startsWith.induct) auto

lemma js_includes_iff: "js_includes t s = occurs s t"
proof (induction t)
  case Nil
  then show ?case by (auto simp: occurs_def)
next
  case (Cons d t)
  show ?case
  proof
    assume "js_includes (d # t) s"
    then consider "startsWith (d # t) s" | "js_includes t s" by auto
    then show "occurs s (d # t)"
    proof cases
      case 1
      then obtain post where "d # t = s @ post" by (auto simp: startsWith_iff)
      then have "d # t = [] @ s @ post" by simp
      then show ?thesis unfolding occurs_def by blast
    next
      case 2
      with Cons obtain pre post where "t = pre @ s @ post" by (auto simp: occurs_def)
      then have "d # t = (d # pre) @ s @ post" by simp
      then show ?thesis unfolding occurs_def by blast
    qed
  next
    assume "occurs s (d # t)"
    then obtain pre post where h: "d # t = pre @ s @ post" by (auto simp: occurs_def)
    show "js_includes (d # t) s"
    proof (cases pre)
      case Nil
      with h have "startsWith (d # t) s" by (auto simp: startsWith_iff)
      then show ?thesis by simp
    next
      case (Cons e pre')
      with h have "t = pre' @ s @ post" by simp
      then have "occurs s t" unfolding occurs_def by blast
      with Cons.IH have "js_includes t s" by simp
      then show ?thesis by simp
    qed
  qed
qed

lemma some_js_iff: "some_js f xs = (\<exists>x \<in> set xs. f x)"
  by (induction xs) auto

lemma toLowerCase_Nil: "toLowerCase [] = []"
  by (simp add: toLowerCase_def encode_def)

lemma occurs_Nil: "occurs [] t"
  unfolding occurs_def by (rule exI [of _ "[]"]) simp

lemma matchesSearch_occurs:
  "matchesSearch u p =
     (occurs u (toLowerCase (name p)) \<or> occurs u (toLowerCase (description p)) \<or>
      (\<exists>i \<in> set (ingredients p). occurs u (toLowerCase i)))"
  by (simp add: matchesSearch_def some_js_iff js_includes_iff)

text \<open>What the search filter alone returns.\<close>

lemma search_result:
  assumes "p \<in> set (products db)"
  shows "p \<in> set (data (listProducts db (noFilters\<lparr>f_search := Some s\<rparr>))) \<longleftrightarrow>
         occurs (toLowerCase s) (toLowerCase (name p)) \<or>
         occurs (toLowerCase s) (toLowerCase (description p)) \<or>
         (\<exists>i \<in> set (ingredients p). occurs (toLowerCase s) (toLowerCase i))"
proof (cases "s = []")
  case True
  with assms show ?thesis
    by (simp add: listProducts_def noFilters_def bySearch_def bySpicyLevel_def
        byAvailable_def byMaxPrice_def byMinPrice_def byCategory_def Let_def
        toLowerCase_Nil occurs_Nil)
next
  case False
  with assms show ?thesis
    by (simp add: listProducts_def noFilters_def bySearch_def bySpicyLevel_def
        byAvailable_def byMaxPrice_def byMinPrice_def byCategory_def Let_def
        matchesSearch_occurs)
qed

text \<open>On ASCII text \<open>toLowerCase\<close> maps character by character.\<close>

lemma decode_ascii: "ascii s \<Longrightarrow> decode s = map byte s"
  by (induction s rule: decode.induct)
     (simp_all add: ascii_def wellFormed4_def wellFormed3_def wellFormed2_def rawByte_def)

lemma lowerPoints_ascii:
  "\<forall>n \<in> set ns. n < 0x80 \<Longrightarrow>
     lowerPoints passed ns = map (\<lambda>c. if 0x41 \<le> c \<and> c \<le> 0x5A then c + 32 else c) ns"
  by (induction ns arbitrary: passed) (simp_all add: lowerPoint_def)

lemma encode_small:
  "\<forall>n \<in> set ns. n < 0x80 \<Longrightarrow> encode ns = map char_of ns"
  by (induction ns) (simp_all add: encode_def encodePoint_def)

lemma toLowerCase_ascii:
  assumes "ascii s"
  shows "toLowerCase s = map lower_char s"
proof -
  from assms have b: "\<forall>c \<in> set s. byte c < 0x80"
    by (simp add: ascii_def list_all_iff)
  let ?f = "\<lambda>c::nat. if 0x41 \<le> c \<and> c \<le> 0x5A then c + 32 else c"
  from b have "\<forall>n \<in> set (map byte s). n < 0x80" by simp
  then have l: "lowerPoints [] (map byte s) = map ?f (map byte s)"
    by (rule lowerPoints_ascii)
  from b have "\<forall>n \<in> set (map ?f (map byte s)). n < 0x80" by auto
  then have "encode (map ?f (map byte s)) = map char_of (map ?f (map byte s))"
    by (rule encode_small)
  with l assms have "toLowerCase s = map char_of (map ?f (map byte s))"
    by (simp add: toLowerCase_def decode_ascii)
  also have "\<dots> = map lower_char s"
    by (simp add: lower_char_def isCapital_def byte_def)
  finally show ?thesis .
qed

lemma ascii_append: "ascii (a @ b) = (ascii a \<and> ascii b)"
  by (simp add: ascii_def)

text \<open>Two characters have the same lower-case form exactly when they agree up to case.\<close>

lemma byte_char_of: "n < 256 \<Longrightarrow> byte (char_of n) = n"
  by (simp add: byte_def)

lemma byte_inject: "byte c = byte d \<Longrightarrow> c = d"
  by (simp add: byte_def)

lemma lower_char_eq_iff: "(lower_char c = lower_char d) = same_letter c d"
proof (cases "isCapital c"; cases "isCapital d")
  assume c: "isCapital c" and d: "isCapital d"
  have "(char_of (byte c + 32) = (char_of (byte d + 32) :: char)) = (c = d)"
  proof
    assume "char_of (byte c + 32) = (char_of (byte d + 32) :: char)"
    then have "byte (char_of (byte c + 32)) = byte (char_of (byte d + 32))"
      by (rule arg_cong)
    with c d have "byte c + 32 = byte d + 32"
      by (simp add: byte_char_of isCapital_def)
    then show "c = d" by (simp add: byte_inject)
  qed simp
  with c d show ?thesis
    by (auto simp: lower_char_def same_letter_def isCapital_def)
next
  assume c: "isCapital c" and d: "\<not> isCapital d"
  have "(char_of (byte c + 32) = d) = (byte d = byte c + 32)"
  proof
    assume "char_of (byte c + 32) = d"
    then have "byte d = byte (char_of (byte c + 32))"
      by (rule arg_cong [symmetric])
    with c show "byte d = byte c + 32" by (simp add: byte_char_of isCapital_def)
  next
    assume "byte d = byte c + 32"
    then have "char_of (byte d) = (char_of (byte c + 32) :: char)"
      by (rule arg_cong)
    then show "char_of (byte c + 32) = d" by (simp add: byte_def)
  qed
  with c d show ?thesis
    by (auto simp: lower_char_def same_letter_def)
next
  assume c: "\<not> isCapital c" and d: "isCapital d"
  have "(c = char_of (byte d + 32)) = (byte c = byte d + 32)"
  proof
    assume "c = char_of (byte d + 32)"
    then have "byte c = byte (char_of (byte d + 32))"
      by (rule arg_cong)
    with d show "byte c = byte d + 32" by (simp add: byte_char_of isCapital_def)
  next
    assume "byte c = byte d + 32"
    then have "char_of (byte c) = (char_of (byte d + 32) :: char)"
      by (rule arg_cong)
    then show "c = char_of (byte d + 32)" by (simp add: byte_def)
  qed
  with c d show ?thesis
    by (auto simp: lower_char_def same_letter_def)
next
  assume "\<not> isCapital c" and "\<not> isCapital d"
  then show ?thesis by (auto simp: lower_char_def same_letter_def)
qed

lemma map_lower_char_eq_iff:
  "(map lower_char u = map lower_char s) = list_all2 same_letter u s"
proof (induction u arbitrary: s)
  case Nil
  then show ?case by auto
next
  case (Cons c u)
  then show ?case by (cases s) (auto simp: lower_char_eq_iff)
qed

lemma occurs_lower_iff:
  "occurs (map lower_char s) (map lower_char t) = ci_substring s t"
proof
  assume "occurs (map lower_char s) (map lower_char t)"
  then obtain pre post where "map lower_char t = pre @ map lower_char s @ post"
    by (auto simp: occurs_def)
  then obtain a r where a: "t = a @ r" "pre = map lower_char a"
      "map lower_char s @ post = map lower_char r"
    by (auto simp: map_eq_append_conv)
  from a(3) obtain u b where u: "r = u @ b" "map lower_char s = map lower_char u"
    by (auto simp: append_eq_map_conv)
  from u(2) have "list_all2 same_letter u s"
    by (simp add: map_lower_char_eq_iff [symmetric])
  with a(1) u(1) show "ci_substring s t"
    unfolding ci_substring_def by blast
next
  assume "ci_substring s t"
  then obtain pre u post where h: "t = pre @ u @ post" "list_all2 same_letter u s"
    by (auto simp: ci_substring_def)
  from h(2) have "map lower_char u = map lower_char s"
    by (simp add: map_lower_char_eq_iff)
  with h(1) have "map lower_char t = map lower_char pre @ map lower_char s @ map lower_char post"
    by simp
  then show "occurs (map lower_char s) (map lower_char t)"
    unfolding occurs_def by blast
qed

lemma occurs_toLowerCase_ascii:
  "ascii s \<Longrightarrow> ascii t \<Longrightarrow> occurs (toLowerCase s) (toLowerCase t) = ci_substring s t"
  by (simp add: toLowerCase_ascii occurs_lower_iff)

text \<open>The lower-case forms of the Greek example.\<close>

lemma char_of_bytes:
  "char_of (206::nat) = CHR 0xCE" "char_of (207::nat) = CHR 0xCF"
  "char_of (177::nat) = CHR 0xB1" "char_of (130::nat) = CHR 0x82"
  "char_of (131::nat) = CHR 0x83"
  by code_simp+

lemma alpha_context:
  "inRanges casedTable 0x391" "\<not> inRanges ignorableTable 0x391"
  by (simp_all add: casedTable_def ignorableTable_def)

lemma lower_alpha: "lowerPoint 0x391 = [0x3B1]"
  by (simp add: lowerPoint_def lowerTable_def)

lemma toLowerCase_sigmaTerm:
  "toLowerCase sigmaTerm = [CHR 0xCE, CHR 0xB1, CHR 0xCF, CHR 0x82]"
proof -
  have "decode sigmaTerm = [0x391, 0x3A3]"
    by (simp add: sigmaTerm_def wellFormed4_def wellFormed3_def wellFormed2_def isCont_def
        cp2_def byte_def)
  moreover have "lowerPoints [] [0x391, 0x3A3] = [0x3B1, 0x3C2]"
    by (simp add: lower_alpha alpha_context)
  moreover have "encode [0x3B1, 0x3C2] = [CHR 0xCE, CHR 0xB1, CHR 0xCF, CHR 0x82]"
    by (simp add: encode_def encodePoint_def char_of_bytes)
  ultimately show ?thesis by (simp add: toLowerCase_def)
qed

lemma toLowerCase_sigmaName:
  "toLowerCase (name sigmaProduct) = [CHR 0xCE, CHR 0xB1, CHR 0xCF, CHR 0x83, CHR 0xCE, CHR 0xB1]"
proof -
  have "decode (name sigmaProduct) = [0x391, 0x3A3, 0x391]"
    by (simp add: sigmaProduct_def sigmaTerm_def wellFormed4_def wellFormed3_def
        wellFormed2_def isCont_def cp2_def byte_def)
  moreover have "lowerPoints [] [0x391, 0x3A3, 0x391] = [0x3B1, 0x3C3, 0x3B1]"
    by (simp add: lower_alpha alpha_context)
  moreover have "encode [0x3B1, 0x3C3, 0x3B1] =
      [CHR 0xCE, CHR 0xB1, CHR 0xCF, CHR 0x83, CHR 0xCE, CHR 0xB1]"
    by (simp add: encode_def encodePoint_def char_of_bytes)
  ultimately show ?thesis by (simp add: toLowerCase_def)
qed

text \<open>
  Claim C4, as stated: a product is in the search result if and only if the term is, up
  to case, a substring of its name, its description or one of its ingredients. The
  handler compares the lower-case forms, and the lower-case form of a capital sigma
  depends on what follows it: the term alpha-sigma is, letter for letter, the beginning
  of the name alpha-sigma-alpha, and the search for it does not return the product.
\<close>

theorem C4_counterexample:
  "products sigmaDb = [sigmaProduct] \<and> ci_substring sigmaTerm (name sigmaProduct) \<and>
   sigmaProduct \<notin> set (data (listProducts sigmaDb (noFilters\<lparr>f_search := Some sigmaTerm\<rparr>)))"
proof -
  have n: "name sigmaProduct = [] @ sigmaTerm @ [CHR 0xCE, CHR 0x91]"
    by (simp add: sigmaProduct_def)
  have "list_all2 same_letter sigmaTerm sigmaTerm"
    by (simp add: list_all2_same same_letter_def)
  with n have c: "ci_substring sigmaTerm (name sigmaProduct)"
    unfolding ci_substring_def by blast
  have p: "products sigmaDb = [sigmaProduct]" by (simp add: sigmaDb_def)
  have "\<not> js_includes (toLowerCase (name sigmaProduct)) (toLowerCase sigmaTerm)"
    by (simp add: toLowerCase_sigmaTerm toLowerCase_sigmaName)
  moreover have "\<not> js_includes (toLowerCase (description sigmaProduct)) (toLowerCase sigmaTerm)"
    by (simp add: toLowerCase_sigmaTerm sigmaProduct_def toLowerCase_Nil)
  moreover have "ingredients sigmaProduct = []" by (simp add: sigmaProduct_def)
  ultimately have m: "\<not> matchesSearch (toLowerCase sigmaTerm) sigmaProduct"
    by (simp add: matchesSearch_def)
  have t: "sigmaTerm \<noteq> []" by (simp add: sigmaTerm_def)
  from p m t have "data (listProducts sigmaDb (noFilters\<lparr>f_search := Some sigmaTerm\<rparr>)) = []"
    by (simp add: listProducts_def noFilters_def bySearch_def bySpicyLevel_def
        byAvailable_def byMaxPrice_def byMinPrice_def byCategory_def Let_def)
  with p c show ?thesis by simp
qed

text \<open>
  Claim C4, amended. For every catalog, every search term \<open>s\<close> and every product \<open>p\<close> of
  the catalog: \<open>p\<close> is in the result of \<open>listProducts\<close> with the search filter \<open>s\<close> alone if
  and only if the lower-case form of \<open>s\<close> is a substring of the lower-case form of the
  name of \<open>p\<close>, of its description, or of one of its ingredients. When \<open>s\<close> and these
  fields are ASCII text, that is the case if and only if \<open>s\<close> is, up to the case of
  letters, a substring of the name, of the description, or of one of the ingredients.
\<close>

theorem C4_search_lowered:
  assumes "p \<in> set (products db)"
  shows "(p \<in> set (data (listProducts db (noFilters\<lparr>f_search := Some s\<rparr>))) \<longleftrightarrow>
           occurs (toLowerCase s) (toLowerCase (name p)) \<or>
           occurs (toLowerCase s) (toLowerCase (description p)) \<or>
           (\<exists>i \<in> set (ingredients p). occurs (toLowerCase s) (toLowerCase i))) \<and>
         (ascii s \<and> ascii (name p) \<and> ascii (description p) \<and> list_all ascii (ingredients p) \<longrightarrow>
           (p \<in> set (data (listProducts db (noFilters\<lparr>f_search := Some s\<rparr>))) \<longleftrightarrow>
              ci_substring s (name p) \<or> ci_substring s (description p) \<or>
              (\<exists>i \<in> set (ingredients p). ci_substring s i)))"
proof (intro conjI impI)
  show r: "p \<in> set (data (listProducts db (noFilters\<lparr>f_search := Some s\<rparr>))) \<longleftrightarrow>
           occurs (toLowerCase s) (toLowerCase (name p)) \<or>
           occurs (toLowerCase s) (toLowerCase (description p)) \<or>
           (\<exists>i \<in> set (ingredients p). occurs (toLowerCase s) (toLowerCase i))"
    using assms by (rule search_result)
  assume a: "ascii s \<and> ascii (name p) \<and> ascii (description p) \<and> list_all ascii (ingredients p)"
  then have i: "\<forall>i \<in> set (ingredients p). ascii i"
    by (simp add: list_all_iff)
  from a have "occurs (toLowerCase s) (toLowerCase (name p)) = ci_substring s (name p)"
    and "occurs (toLowerCase s) (toLowerCase (description p)) = ci_substring s (description p)"
    by (simp_all add: occurs_toLowerCase_ascii)
  moreover from a i have
    "(\<exists>i \<in> set (ingredients p). occurs (toLowerCase s) (toLowerCase i)) =
     (\<exists>i \<in> set (ingredients p). ci_substring s i)"
    by (simp add: occurs_toLowerCase_ascii)
  ultimately show "p \<in> set (data (listProducts db (noFilters\<lparr>f_search := Some s\<rparr>))) \<longleftrightarrow>
              ci_substring s (name p) \<or> ci_substring s (description p) \<or>
              (\<exists>i \<in> set (ingredients p). ci_substring s i)"
    using r by simp
qed

theorem C4_search_lowered_witness:
  "product2 \<in> set (products exampleDb) \<and>
   ascii ''CHILE'' \<and> ascii (name product2) \<and> ascii (description product2) \<and>
   list_all ascii (ingredients product2) \<and>
   product2 \<in> set (data (listProducts exampleDb (noFilters\<lparr>f_search := Some ''CHILE''\<rparr>))) \<and>
   (ci_substring ''CHILE'' (name product2) \<or> ci_substring ''CHILE'' (description product2) \<or>
    (\<exists>i \<in> set (ingredients product2). ci_substring ''CHILE'' i))"
proof -
  have m: "product2 \<in> set (products exampleDb)" by (simp add: exampleDb_def)
  have a: "ascii ''CHILE'' \<and> ascii (name product2) \<and> ascii (description product2) \<and>
           list_all ascii (ingredients product2)"
    by code_simp
  have d: "data (listProducts exampleDb (noFilters\<lparr>f_search := Some ''CHILE''\<rparr>)) = [product2]"
    by code_simp
  have r: "product2 \<in> set (data (listProducts exampleDb (noFilters\<lparr>f_search := Some ''CHILE''\<rparr>)))"
    by (simp only: d) simp
  from C4_search_lowered [OF m, of "''CHILE''"] m a r show ?thesis by blast
qed

section \<open>Categories\<close>

lemma lower_VEGETARIAN: "toLowerCase ''VEGETARIAN'' = toLowerCase ''vegetarian''"
  by code_simp

text \<open>
  Claim C2, as stated: \<open>listProductsByCategory\<close> returns identical results, the whole
  response included, for \<open>VEGETARIAN\<close> and \<open>vegetarian\<close>. The success body repeats the
  route parameter as it was written, so on the example catalog the two responses differ.
\<close>

theorem C2_counterexample:
  "listProductsByCategory exampleDb ''VEGETARIAN'' \<noteq>
   listProductsByCategory exampleDb ''vegetarian''"
  by code_simp

text \<open>
  Claim C2, amended: for every catalog, \<open>listProductsByCategory\<close> for \<open>VEGETARIAN\<close> and
  for \<open>vegetarian\<close> either both answer with the same not-found response, or both succeed
  with the same product sequence and the same count; the field \<open>category\<close> of each
  success body is the parameter as it was passed.
\<close>

theorem C2_same_products_and_count:
  "(case (listProductsByCategory db ''VEGETARIAN'', listProductsByCategory db ''vegetarian'') of
      (Inl e1, Inl e2) \<Rightarrow> e1 = e2
    | (Inr r1, Inr r2) \<Rightarrow>
        data r1 = data r2 \<and> count r1 = count r2 \<and>
        category_param r1 = ''VEGETARIAN'' \<and> category_param r2 = ''vegetarian''
    | _ \<Rightarrow> False)"
  by (simp add: listProductsByCategory_def Let_def lower_VEGETARIAN)

theorem C2_same_products_and_count_witness:
  "(case (listProductsByCategory exampleDb ''VEGETARIAN'',
          listProductsByCategory exampleDb ''vegetarian'') of
      (Inl e1, Inl e2) \<Rightarrow> e1 = e2
    | (Inr r1, Inr r2) \<Rightarrow>
        data r1 = data r2 \<and> count r1 = count r2 \<and>
        category_param r1 = ''VEGETARIAN'' \<and> category_param r2 = ''vegetarian''
    | _ \<Rightarrow> False) \<and>
   listProductsByCategory exampleDb ''vegetarian'' =
     Inr \<lparr>count = 1, data = [product1], category_param = ''vegetarian''\<rparr>"
proof -
  have "listProductsByCategory exampleDb ''vegetarian'' =
     Inr \<lparr>count = 1, data = [product1], category_param = ''vegetarian''\<rparr>"
    by code_simp
  with C2_same_products_and_count [of exampleDb] show ?thesis by simp
qed

text \<open>
  Claim C7. For every catalog, \<open>listCategories\<close> returns one entry for each element of
  the category list, in order; the entry at a position carries the category name at that
  position and the number of products whose category string is equal to that name.
\<close>

theorem C7_listCategories:
  "length (listCategories db) = length (categories db) \<and>
   (\<forall>i < length (categories db).
      entry_name (listCategories db ! i) = categories db ! i \<and>
      entry_count (listCategories db ! i) =
        card {j. j < length (products db) \<and> category (products db ! j) = categories db ! i})"
  by (simp add: listCategories_def length_filter_conv_card)

theorem C7_listCategories_witness:
  "length (listCategories exampleDb) = 2 \<and>
   (1::nat) < length (categories exampleDb) \<and>
   entry_name (listCategories exampleDb ! 1) = ''Meat'' \<and>
   card {j. j < length (products exampleDb) \<and>
            category (products exampleDb ! j) = categories exampleDb ! 1} = 1"
proof -
  have l: "(1::nat) < length (categories exampleDb)" by (simp add: exampleDb_def)
  have c: "entry_count (listCategories exampleDb ! 1) = 1" by code_simp
  have n: "categories exampleDb ! 1 = ''Meat''" by (simp add: exampleDb_def)
  have m: "length (categories exampleDb) = 2" by (simp add: exampleDb_def)
  from C7_listCategories [of exampleDb] l c n m show ?thesis by simp
qed

section \<open>Lookup by identifier\<close>

text \<open>Reading back the decimal digits of a number gives the number.\<close>

declare showNat.simps [simp del]

lemma isDigit_digit: "(d::nat) < 10 \<Longrightarrow> isDigit (char_of (48 + d))"
  by (simp add: isDigit_def)

lemma digitVal_digit: "(d::nat) < 10 \<Longrightarrow> digitVal (char_of (48 + d)) = d"
  by (simp add: digitVal_def)

lemma showNat_digits: "\<forall>c \<in> set (showNat n). isDigit c"
proof (induction n rule: showNat.induct)
  case (1 n)
  show ?case
  proof (cases "n < 10")
    case True
    then show ?thesis by (subst showNat.simps) (simp add: isDigit_digit)
  next
    case False
    with 1 show ?thesis by (subst showNat.simps) (simp add: isDigit_digit)
  qed
qed

lemma showNat_nonempty: "showNat n \<noteq> []"
  by (subst showNat.simps) simp

lemma digitsVal_snoc: "digitsVal (ds @ [c]) = 10 * digitsVal ds + digitVal c"
  by (simp add: digitsVal_def)

lemma digitsVal_showNat: "digitsVal (showNat n) = n"
proof (induction n rule: showNat.induct)
  case (1 n)
  show ?case
  proof (cases "n < 10")
    case True
    then show ?thesis by (subst showNat.simps) (simp add: digitsVal_def digitVal_digit)
  next
    case False
    with 1 have "digitsVal (showNat (n div 10)) = n div 10" by simp
    with False show ?thesis
      by (subst showNat.simps) (simp add: digitsVal_snoc digitVal_digit)
  qed
qed

lemma takeWhile_all: "\<forall>c \<in> set xs. P c \<Longrightarrow> takeWhile P xs = xs"
  by (induction xs) auto

text \<open>A number written in decimal starts with a digit, and with \<open>0\<close> only when it is 0.\<close>

lemma showNat_hd: "\<exists>c cs. showNat n = c # cs \<and> isDigit c \<and> (c = CHR ''0'' \<longrightarrow> cs = [])"
proof (induction n rule: showNat.induct)
  case (1 n)
  show ?case
  proof (cases "n < 10")
    case True
    then show ?thesis by (subst showNat.simps) (simp add: isDigit_digit)
  next
    case False
    with 1 obtain c cs where
      h: "showNat (n div 10) = c # cs" "isDigit c" "c = CHR ''0'' \<longrightarrow> cs = []"
      by auto
    have nz: "c \<noteq> CHR ''0''"
    proof
      assume z: "c = CHR ''0''"
      with h have "digitsVal (showNat (n div 10)) = digitsVal ''0''" by simp
      moreover have "digitsVal ''0'' = 0" by (simp add: digitsVal_def digitVal_def)
      ultimately have "n div 10 = 0" by (simp only: digitsVal_showNat)
      with False show False by simp
    qed
    from False h nz show ?thesis by (subst showNat.simps) simp
  qed
qed

lemma digit_not_special:
  "isDigit c \<Longrightarrow>
     \<not> isWhiteSpace c \<and> c \<noteq> CHR ''-'' \<and> c \<noteq> CHR ''+'' \<and> c \<noteq> CHR ''x'' \<and> c \<noteq> CHR ''X''"
  by (auto simp: isDigit_def isWhiteSpace_def)

lemma unsignedInt_showNat: "unsignedInt (showNat n) = Fin (of_nat n)"
proof -
  obtain c cs where h: "showNat n = c # cs" "isDigit c" "c = CHR ''0'' \<longrightarrow> cs = []"
    using showNat_hd by blast
  have nx: "\<not> startsWith (showNat n) ''0x'' \<and> \<not> startsWith (showNat n) ''0X''"
  proof (cases cs)
    case Nil
    with h show ?thesis by simp
  next
    case (Cons d ds)
    with h show ?thesis by auto
  qed
  have tw: "takeWhile isDigit (showNat n) = showNat n"
    by (rule takeWhile_all) (rule showNat_digits)
  from nx have "unsignedInt (showNat n) =
      (let ds = takeWhile isDigit (showNat n)
       in if ds = [] then NaN else Fin (of_nat (digitsVal ds)))"
    by (simp add: unsignedInt_def)
  also have "\<dots> = Fin (of_nat n)"
    unfolding tw Let_def by (simp add: showNat_nonempty digitsVal_showNat)
  finally show ?thesis .
qed

lemma parseInt_showNat: "parseInt (showNat n) = Fin (of_nat n)"
proof -
  obtain c cs where h: "showNat n = c # cs" "isDigit c"
    using showNat_hd by blast
  from h digit_not_special [of c] have "dropWhile isWhiteSpace (showNat n) = showNat n"
    by simp
  with h digit_not_special [of c] show ?thesis
    using unsignedInt_showNat [of n] by (simp add: parseInt_def Let_def)
qed

lemma parseInt_decimal: "parseInt (decimal i) = num i"
proof (cases "i < 0")
  case True
  have w: "\<not> isWhiteSpace CHR ''-''" by (simp add: isWhiteSpace_def)
  from True w show ?thesis
    by (simp add: decimal_def parseInt_def Let_def unsignedInt_showNat num_def)
next
  case False
  then show ?thesis by (simp add: decimal_def parseInt_showNat num_def)
qed

lemma js_eq_num: "js_eq (num a) (num b) = (a = b)"
  by (simp add: num_def)

lemma find_distinct:
  "distinct (map f xs) \<Longrightarrow> x \<in> set xs \<Longrightarrow> find (\<lambda>y. f y = f x) xs = Some x"
  by (induction xs) auto

text \<open>
  Claim C8. For every catalog whose product identifiers are pairwise distinct and every
  product \<open>p\<close> of the catalog, \<open>getProductById\<close> called with the identifier of \<open>p\<close> succeeds
  and returns exactly \<open>p\<close>.
\<close>

theorem C8_getProductById:
  assumes "distinct (map id_p (products db))" and "p \<in> set (products db)"
  shows "getProductById db (decimal (id_p p)) = Inr p"
  using find_distinct [OF assms]
  by (simp add: getProductById_def Let_def parseInt_decimal js_eq_num)

theorem C8_getProductById_witness:
  "distinct (map id_p (products exampleDb)) \<and> product2 \<in> set (products exampleDb) \<and>
   decimal (id_p product2) = ''2'' \<and> getProductById exampleDb ''2'' = Inr product2"
proof -
  have d: "distinct (map id_p (products exampleDb))"
    by (simp add: exampleDb_def product1_def product2_def)
  have m: "product2 \<in> set (products exampleDb)"
    by (simp add: exampleDb_def)
  have s: "decimal (id_p product2) = ''2''" by code_simp
  from C8_getProductById [OF d m] d m s show ?thesis by simp
qed

text \<open>
  A parameter that \<open>parseInt\<close> cannot read is equal to no identifier, and the lookup
  answers 404. The application registers the route \<open>/api/products/:id\<close> before
  \<open>/api/products/featured\<close>, so a request for the path \<open>/api/products/featured\<close> is
  dispatched to this lookup with the parameter \<open>featured\<close>; the properties of the
  featured list below are those of its handler function.
\<close>

lemma js_eq_NaN_right: "js_eq a NaN = False"
  by (cases a) simp_all

lemma getProductById_unreadable:
  assumes "parseInt ident = NaN"
  shows "getProductById db ident = Inl \<lparr>status = 404, message = ''Producto no encontrado''\<rparr>"
proof -
  have "find (\<lambda>p. js_eq (num (id_p p)) NaN) (products db) = None"
    by (simp add: js_eq_NaN_right find_None_iff)
  with assms show ?thesis by (simp add: getProductById_def Let_def)
qed

lemma getProductById_featured:
  "getProductById db ''featured'' = Inl \<lparr>status = 404, message = ''Producto no encontrado''\<rparr>"
proof -
  have "parseInt ''featured'' = NaN" by code_simp
  then show ?thesis by (rule getProductById_unreadable)
qed

section \<open>Featured products\<close>

lemma set_insert_sorted: "set (insert_sorted cmp x ys) = insert x (set ys)"
  by (induction ys) auto

lemma set_sort_js: "set (sort_js cmp xs) = set xs"
  unfolding sort_js_def by (induction xs) (simp_all add: set_insert_sorted)

text \<open>A rating that passes the threshold is a finite number or the positive infinity.\<close>

lemma featured_cases: "featured p \<Longrightarrow> rating p = PInf \<or> (\<exists>r. rating p = Fin r)"
  by (cases "rating p") (simp_all add: featured_def js_ge_def)

text \<open>What the comparison function decides about two featured products.\<close>

lemma moved_behind:
  "featured x \<Longrightarrow> featured y \<Longrightarrow> js_gt (byRatingDesc x y) (Fin 0) \<Longrightarrow>
     js_ge (rating y) (rating x)"
  using featured_cases [of x] featured_cases [of y]
  by (auto simp: byRatingDesc_def js_sub_def js_ge_def)

lemma kept_in_front:
  "featured x \<Longrightarrow> featured y \<Longrightarrow> \<not> js_gt (byRatingDesc x y) (Fin 0) \<Longrightarrow>
     js_ge (rating x) (rating y)"
  using featured_cases [of x] featured_cases [of y]
  by (auto simp: byRatingDesc_def js_sub_def js_ge_def)

lemma js_ge_trans:
  "js_ge a b \<Longrightarrow> js_ge b c \<Longrightarrow> js_ge a c"
  by (cases a; cases b; cases c) (simp_all add: js_ge_def)

lemma sorted_insert_sorted:
  assumes "sorted_wrt (\<lambda>a b. js_ge (rating a) (rating b)) ys"
    and "featured x" and "\<forall>y \<in> set ys. featured y"
  shows "sorted_wrt (\<lambda>a b. js_ge (rating a) (rating b)) (insert_sorted byRatingDesc x ys)"
  using assms
proof (induction ys)
  case Nil
  then show ?case by simp
next
  case (Cons y ys)
  show ?case
  proof (cases "js_gt (byRatingDesc x y) (Fin 0)")
    case True
    with Cons.prems have yx: "js_ge (rating y) (rating x)"
      by (simp add: moved_behind)
    from Cons have
      "sorted_wrt (\<lambda>a b. js_ge (rating a) (rating b)) (insert_sorted byRatingDesc x ys)"
      by simp
    with True yx Cons.prems show ?thesis
      by (auto simp: set_insert_sorted)
  next
    case False
    with Cons.prems have xy: "js_ge (rating x) (rating y)"
      by (simp add: kept_in_front)
    from Cons.prems have "\<forall>z \<in> set ys. js_ge (rating y) (rating z)" by simp
    with xy have "\<forall>z \<in> set ys. js_ge (rating x) (rating z)"
      by (blast intro: js_ge_trans)
    with False xy Cons.prems show ?thesis by simp
  qed
qed

lemma sorted_sort_js:
  "\<forall>x \<in> set xs. featured x \<Longrightarrow>
     sorted_wrt (\<lambda>a b. js_ge (rating a) (rating b)) (sort_js byRatingDesc xs)"
proof (induction xs)
  case Nil
  then show ?case by (simp add: sort_js_def)
next
  case (Cons x xs)
  then have "sorted_wrt (\<lambda>a b. js_ge (rating a) (rating b)) (sort_js byRatingDesc xs)"
    by simp
  moreover from Cons.prems have "\<forall>y \<in> set (sort_js byRatingDesc xs). featured y"
    by (simp add: set_sort_js)
  moreover from Cons.prems have "featured x" by simp
  ultimately have
    "sorted_wrt (\<lambda>a b. js_ge (rating a) (rating b))
       (insert_sorted byRatingDesc x (sort_js byRatingDesc xs))"
    by (simp add: sorted_insert_sorted)
  then show ?case by (simp add: sort_js_def)
qed

lemma featured_data:
  "data (getFeaturedProducts db) =
     take 6 (sort_js byRatingDesc (filter featured (products db)))"
  by (simp add: getFeaturedProducts_def Let_def slice_def featured_def [abs_def])

text \<open>
  Claim C3. For every catalog, \<open>getFeaturedProducts\<close> returns at most 6 items (and
  reports their number as the count), the returned sequence is sorted by rating, each
  item rated at least as high as every later one, and every returned item has a rating
  of at least 4.5.
\<close>

theorem C3_featured:
  "length (data (getFeaturedProducts db)) \<le> 6 \<and>
   count (getFeaturedProducts db) = length (data (getFeaturedProducts db)) \<and>
   sorted_wrt (\<lambda>a b. js_ge (rating a) (rating b)) (data (getFeaturedProducts db)) \<and>
   (\<forall>p \<in> set (data (getFeaturedProducts db)). js_ge (rating p) (Fin (9 / 2)))"
proof (intro conjI)
  show "length (data (getFeaturedProducts db)) \<le> 6"
    by (simp add: featured_data)
  show "count (getFeaturedProducts db) = length (data (getFeaturedProducts db))"
    by (simp add: getFeaturedProducts_def Let_def)
  have "sorted_wrt (\<lambda>a b. js_ge (rating a) (rating b))
          (sort_js byRatingDesc (filter featured (products db)))"
    by (rule sorted_sort_js) simp
  then show "sorted_wrt (\<lambda>a b. js_ge (rating a) (rating b)) (data (getFeaturedProducts db))"
    unfolding featured_data by (rule sorted_wrt_take)
  show "\<forall>p \<in> set (data (getFeaturedProducts db)). js_ge (rating p) (Fin (9 / 2))"
  proof
    fix p assume "p \<in> set (data (getFeaturedProducts db))"
    then have "p \<in> set (sort_js byRatingDesc (filter featured (products db)))"
      unfolding featured_data by (rule in_set_takeD)
    then show "js_ge (rating p) (Fin (9 / 2))"
      by (simp add: set_sort_js featured_def)
  qed
qed

theorem C3_featured_witness:
  "map id_p (data (getFeaturedProducts ratedDb)) = [2, 6, 8, 5, 7, 1] \<and>
   length (data (getFeaturedProducts ratedDb)) \<le> 6 \<and>
   sorted_wrt (\<lambda>a b. js_ge (rating a) (rating b)) (data (getFeaturedProducts ratedDb)) \<and>
   js_ge (rating (data (getFeaturedProducts ratedDb) ! 5)) (Fin (9 / 2))"
proof -
  have i: "map id_p (data (getFeaturedProducts ratedDb)) = [2, 6, 8, 5, 7, 1]"
    by code_simp
  then have "length (map id_p (data (getFeaturedProducts ratedDb))) = 6"
    by (simp only:) simp
  then have "5 < length (data (getFeaturedProducts ratedDb))"
    by simp
  then have "data (getFeaturedProducts ratedDb) ! 5 \<in> set (data (getFeaturedProducts ratedDb))"
    by (rule nth_mem)
  with i C3_featured [of ratedDb] show ?thesis by blast
qed

section \<open>Loading the catalog\<close>

text \<open>
  Claim C9. \<open>loadData\<close> never raises: whatever the file system and the parser do, it
  returns a value. When reading the file fails, or reading succeeds and parsing fails, it
  returns the object with the three fields \<open>products\<close>, an empty array, \<open>categories\<close>, an
  empty array, and \<open>restaurantInfo\<close>, an empty object (and writes the error to the
  console); when both succeed it returns the parsed document.
\<close>

theorem C9_loadData:
  "(\<exists>r. loadData readFileSync JSON_parse dir = Inr r) \<and>
   (\<forall>e. readFileSync (path_join dir ''data.json'') = Inl e \<longrightarrow>
        loadData readFileSync JSON_parse dir =
          Inr ([e], JObject [(''products'', JArray []), (''categories'', JArray []),
                             (''restaurantInfo'', JObject [])])) \<and>
   (\<forall>raw e. readFileSync (path_join dir ''data.json'') = Inr raw \<and> JSON_parse raw = Inl e \<longrightarrow>
        loadData readFileSync JSON_parse dir =
          Inr ([e], JObject [(''products'', JArray []), (''categories'', JArray []),
                             (''restaurantInfo'', JObject [])])) \<and>
   (\<forall>raw doc. readFileSync (path_join dir ''data.json'') = Inr raw \<and> JSON_parse raw = Inr doc \<longrightarrow>
        loadData readFileSync JSON_parse dir = Inr ([], doc))"
  by (auto simp: loadData_def readAndParse_def emptyData_def Let_def split: sum.splits)

theorem C9_loadData_witness:
  "loadData noFile sampleParse ''/app'' =
     Inr ([IOError ''ENOENT''],
          JObject [(''products'', JArray []), (''categories'', JArray []),
                   (''restaurantInfo'', JObject [])]) \<and>
   loadData (fileWith ''{products'') sampleParse ''/app'' =
     Inr ([SyntaxError ''Unexpected token''],
          JObject [(''products'', JArray []), (''categories'', JArray []),
                   (''restaurantInfo'', JObject [])]) \<and>
   loadData (fileWith ''{}'') sampleParse ''/app'' = Inr ([], JObject [])"
proof -
  have p: "path_join ''/app'' ''data.json'' = ''/app/data.json''"
    by (simp add: path_join_def)
  have a: "noFile (path_join ''/app'' ''data.json'') = Inl (IOError ''ENOENT'')"
    by (simp add: noFile_def)
  have b: "fileWith ''{products'' (path_join ''/app'' ''data.json'') = Inr ''{products'' \<and>
           sampleParse ''{products'' = Inl (SyntaxError ''Unexpected token'')"
    by (simp add: p fileWith_def sampleParse_def)
  have c: "fileWith ''{}'' (path_join ''/app'' ''data.json'') = Inr ''{}'' \<and>
           sampleParse ''{}'' = Inr (JObject [])"
    by (simp add: p fileWith_def sampleParse_def)
  from C9_loadData [of noFile sampleParse "''/app''"] a
  have 1: "loadData noFile sampleParse ''/app'' =
     Inr ([IOError ''ENOENT''],
          JObject [(''products'', JArray []), (''categories'', JArray []),
                   (''restaurantInfo'', JObject [])])"
    by blast
  from C9_loadData [of "fileWith ''{products''" sampleParse "''/app''"] b
  have 2: "loadData (fileWith ''{products'') sampleParse ''/app'' =
     Inr ([SyntaxError ''Unexpected token''],
          JObject [(''products'', JArray []), (''categories'', JArray []),
                   (''restaurantInfo'', JObject [])])"
    by blast
  from C9_loadData [of "fileWith ''{}''" sampleParse "''/app''"] c
  have 3: "loadData (fileWith ''{}'') sampleParse ''/app'' = Inr ([], JObject [])"
    by blast
  from 1 2 3 show ?thesis by blast
qed

end
